theory Spec2Isabelle
  imports Complex_Main "HOL-Library.Sublist"
begin

section \<open>The runtime the program talks to\<close>

text \<open>
  The program is a TypeScript command-line tool. Everything it does goes through the
  runtime: the file system, the process environment, the lookup of executables, child
  processes, prompts and the console. The model passes one record, \<open>world\<close>, through every
  operation. Its first fields are the state the program reads and changes, the next ones
  are the answers of the outside (which the program cannot compute and which are therefore
  left arbitrary), the last ones are logs of what the program did.

  Paths are strings, and \<open>path.join\<close> is the POSIX one of \<open>node:path\<close>, which normalises
  its result. The file tree is a map from the path the program passes to what the operating
  system finds there; two strings may name the same place, and a recursive removal takes
  every entry that lies at or below the place its target names. The tree has files and
  directories, no symbolic links.
\<close>

datatype node = File string | Dir

type_synonym files = "string \<Rightarrow> node option"

type_synonym environ = "string \<Rightarrow> string option"

text \<open>A value as \<open>JSON.parse\<close> returns it.\<close>

datatype json =
    JNull
  | JBool bool
  | JNumber real
  | JString string
  | JArray "json list"
  | JObject "(string \<times> json) list"

text \<open>
  What a call can throw: an \<open>Error\<close> object made by the program itself with
  \<open>new Error(message)\<close>, the failure of \<open>Bun.spawn\<close> to launch a child, or the failure of a
  file-system call (error code and path).
\<close>

datatype launch_failure = CommandNotFound | LaunchError string

datatype thrown =
    Error string
  | SpawnFailed launch_failure
  | SystemError string string

text \<open>
  The outcome of one \<open>rm(target, {recursive: true, force: true})\<close>: everything at and below
  the target is gone; or the target does not resolve to a place (a component on the way
  to it is missing), which \<open>force\<close> lets pass without an error and without a change; or
  the call rejects and leaves behind the entries the predicate selects.
\<close>

datatype rm_result = Removed | Unresolved | Rejected "string \<Rightarrow> bool"

datatype confirm_result = Cancelled | Answered bool

text \<open>
  Console output. A plain line is kept as text (line breaks, colour escapes and emphasis
  marks inside a line are left out); a decorated multi-line block is one event.
\<close>

datatype printed =
    Log string
  | NotInstalledNotice string
  | CliNotFoundNotice string string string
  | HomeDirectoryNotice
  | AlreadyAuthenticatedNotice string
  | RuleLine

datatype init_event = Bootstrapped string | Synced string

record choice =
  choice_title :: string
  choice_value :: string
  choice_description :: string

record world =
  fs :: files
  env :: environ
  cwd :: string
  homedir :: string
  which :: "string \<Rightarrow> string option"
  realpath :: "string \<Rightarrow> string option"
  JSON_parse :: "string \<Rightarrow> json option"
  expandHomeDir :: "string \<Rightarrow> string"
  rm_outcome :: "string \<Rightarrow> rm_result"
  run :: "string list \<Rightarrow> environ \<Rightarrow> files \<Rightarrow> launch_failure + nat \<times> files"
  ensureWorkspaceStructure :: "string \<Rightarrow> files \<Rightarrow> thrown + files"
  selectFromMenu :: "string \<Rightarrow> choice list \<Rightarrow> string option"
  confirm :: "string \<Rightarrow> confirm_result"
  spawned :: "string list list"
  rm_calls :: "string list"
  console :: "printed list"
  init_log :: "init_event list"

text \<open>
  \<open>fs\<close>, \<open>env\<close>, \<open>cwd\<close>, \<open>homedir\<close>: the file tree, \<open>process.env\<close>, \<open>process.cwd()\<close> and
  \<open>os.homedir()\<close>.
  \<open>which\<close> is \<open>Bun.which\<close>; \<open>realpath\<close> is \<open>realpathSync\<close>, \<open>None\<close> when it throws;
  \<open>JSON_parse\<close> is \<open>JSON.parse\<close>, \<open>None\<close> when it throws.
  \<open>expandHomeDir\<close> (shared/utils), \<open>ensureWorkspaceStructure\<close> (services/workspace) and
  \<open>selectFromMenu\<close> (cli/utils/selection-menu) are functions of the repository outside
  the files modelled here; together with \<open>confirm\<close> of the prompt library they are
  parameters of the model. \<open>run\<close> is what an external program does when launched with an
  argument vector and an environment: it cannot be launched, or it exits with a status and
  leaves a file tree. \<open>rm_outcome\<close> is the outcome of a recursive removal.
  \<open>spawned\<close> records every call of \<open>Bun.spawn\<close>, \<open>rm_calls\<close> the target of every call of
  \<open>rm\<close>, \<open>console\<close> every console call, \<open>init_log\<close> the calls the background initializer
  makes.
\<close>

subsection \<open>JavaScript operators\<close>

text \<open>\<open>!!v\<close> for a parsed JSON value.\<close>

fun truthy :: "json \<Rightarrow> bool" where
  "truthy JNull = False"
| "truthy (JBool b) = b"
| "truthy (JNumber r) = (r \<noteq> 0)"
| "truthy (JString s) = (s \<noteq> [])"
| "truthy (JArray xs) = True"
| "truthy (JObject kvs) = True"

text \<open>\<open>typeof v === 'object'\<close>: true of \<open>null\<close>, arrays and objects.\<close>

fun typeof_object :: "json \<Rightarrow> bool" where
  "typeof_object JNull = True"
| "typeof_object (JArray xs) = True"
| "typeof_object (JObject kvs) = True"
| "typeof_object v = False"

text \<open>
  \<open>key in v\<close> looks at the own properties of the value and at those it inherits. A parsed
  object owns its keys and inherits from \<open>Object.prototype\<close>; a parsed array owns
  \<open>length\<close> and its indices and inherits from \<open>Array.prototype\<close> and \<open>Object.prototype\<close>.
\<close>

definition Object_prototype_names :: "string list" where
  "Object_prototype_names =
    [''constructor'', ''__defineGetter__'', ''__defineSetter__'', ''hasOwnProperty'',
     ''__lookupGetter__'', ''__lookupSetter__'', ''isPrototypeOf'',
     ''propertyIsEnumerable'', ''toString'', ''valueOf'', ''__proto__'',
     ''toLocaleString'']"

definition Array_prototype_names :: "string list" where
  "Array_prototype_names =
    [''at'', ''concat'', ''copyWithin'', ''entries'', ''every'', ''fill'', ''filter'',
     ''find'', ''findIndex'', ''findLast'', ''findLastIndex'', ''flat'', ''flatMap'',
     ''forEach'', ''includes'', ''indexOf'', ''join'', ''keys'', ''lastIndexOf'', ''map'',
     ''pop'', ''push'', ''reduce'', ''reduceRight'', ''reverse'', ''shift'', ''slice'',
     ''some'', ''sort'', ''splice'', ''toReversed'', ''toSorted'', ''toSpliced'',
     ''unshift'', ''values'', ''with'']"

fun string_of_nat :: "nat \<Rightarrow> string" where
  "string_of_nat n =
    (if n < 10 then [''0123456789'' ! n]
     else string_of_nat (n div 10) @ [''0123456789'' ! (n mod 10)])"

declare string_of_nat.simps [simp del]

definition object_has :: "string \<Rightarrow> (string \<times> json) list \<Rightarrow> bool" where
  "object_has k kvs \<longleftrightarrow> k \<in> set (map fst kvs) \<or> k \<in> set Object_prototype_names"

definition array_has :: "string \<Rightarrow> json list \<Rightarrow> bool" where
  "array_has k xs \<longleftrightarrow>
    k = ''length'' \<or> k \<in> set (map string_of_nat [0..<length xs])
    \<or> k \<in> set Array_prototype_names \<or> k \<in> set Object_prototype_names"

fun js_in :: "string \<Rightarrow> json \<Rightarrow> bool" where
  "js_in k (JObject kvs) = object_has k kvs"
| "js_in k (JArray xs) = array_has k xs"
| "js_in k v = False"

text \<open>\<open>s ? ... : ...\<close> and \<open>s || ...\<close> on a string that may be undefined.\<close>

fun truthy_string :: "string option \<Rightarrow> string option" where
  "truthy_string None = None"
| "truthy_string (Some s) = (if s = [] then None else Some s)"

subsection \<open>Paths and the file system\<close>

text \<open>
  \<open>path.join\<close> and \<open>path.normalize\<close> of \<open>node:path\<close> (POSIX). A path is cut at its
  separators; \<open>normalizeString\<close> drops the empty and the \<open>.\<close> segments and lets a \<open>..\<close>
  take back the segment before it (at the start of a relative path it stays, at the root
  of an absolute path it is dropped). \<open>normalize_step\<close> keeps the segments it has
  accepted, the last one first.
\<close>

fun split_slash :: "string \<Rightarrow> string list" where
  "split_slash [] = [[]]"
| "split_slash (c # cs) =
    (if c = CHR ''/'' then [] # split_slash cs
     else (case split_slash cs of [] \<Rightarrow> [[c]] | s # ss \<Rightarrow> (c # s) # ss))"

fun join_slash :: "string list \<Rightarrow> string" where
  "join_slash [] = []"
| "join_slash [s] = s"
| "join_slash (s # t # ss) = s @ ''/'' @ join_slash (t # ss)"

definition normalize_step :: "bool \<Rightarrow> string list \<Rightarrow> string \<Rightarrow> string list" where
  "normalize_step allowAboveRoot res seg =
    (if seg = [] \<or> seg = ''.'' then res
     else if seg = ''..'' then
       (case res of
          [] \<Rightarrow> if allowAboveRoot then [''..''] else []
        | l # rest \<Rightarrow>
            if l = ''..'' then (if allowAboveRoot then ''..'' # res else res) else rest)
     else seg # res)"

definition normalizeString :: "string \<Rightarrow> bool \<Rightarrow> string list" where
  "normalizeString p allowAboveRoot =
    rev (foldl (normalize_step allowAboveRoot) [] (split_slash p))"

definition normalize :: "string \<Rightarrow> string" where
  "normalize p =
    (if p = [] then ''.''
     else
       let isAbsolute = (hd p = CHR ''/'');
           trailingSeparator = (last p = CHR ''/'');
           body = join_slash (normalizeString p (\<not> isAbsolute))
       in if body = [] then
            (if isAbsolute then ''/'' else if trailingSeparator then ''./'' else ''.'')
          else (if isAbsolute then ''/'' else []) @ body
               @ (if trailingSeparator then ''/'' else []))"

definition path_join :: "string list \<Rightarrow> string" where
  "path_join args =
    (let parts = filter (\<lambda>arg. arg \<noteq> []) args
     in if parts = [] then ''.'' else normalize (join_slash parts))"

text \<open>
  The place a path names: its components from the root, those of a relative path counted
  from the working directory. In a tree without symbolic links a path that resolves names
  the place its segments spell.
\<close>

definition location :: "world \<Rightarrow> string \<Rightarrow> string list" where
  "location w p =
    rev (foldl (normalize_step False) []
           (split_slash (if p \<noteq> [] \<and> hd p = CHR ''/'' then p else cwd w @ ''/'' @ p)))"

definition located_under :: "world \<Rightarrow> string \<Rightarrow> string \<Rightarrow> bool" where
  "located_under w d p \<longleftrightarrow> prefix (location w d) (location w p)"


definition proper :: "string list \<Rightarrow> bool" where
  "proper st \<longleftrightarrow> (\<forall>x\<in>set st. x \<noteq> [] \<and> x \<noteq> ''.'' \<and> CHR ''/'' \<notin> set x)"

text \<open>\<open>is_under d p\<close>: the path \<open>p\<close> is \<open>d\<close> or continues it past a separator.\<close>

definition is_under :: "string \<Rightarrow> string \<Rightarrow> bool" where
  "is_under d p \<longleftrightarrow> p = d \<or> prefix (d @ ''/'') p"

definition dirname :: "string \<Rightarrow> string" where
  "dirname p = rev (tl (dropWhile (\<lambda>c. c \<noteq> CHR ''/'') (rev p)))"

definition existsSync :: "world \<Rightarrow> string \<Rightarrow> bool" where
  "existsSync w p \<longleftrightarrow> fs w p \<noteq> None"

definition readFile :: "world \<Rightarrow> string \<Rightarrow> thrown + string" where
  "readFile w p =
    (case fs w p of
       None \<Rightarrow> Inl (SystemError ''ENOENT'' p)
     | Some Dir \<Rightarrow> Inl (SystemError ''EISDIR'' p)
     | Some (File c) \<Rightarrow> Inr c)"

definition stat :: "world \<Rightarrow> string \<Rightarrow> thrown + node" where
  "stat w p =
    (case fs w p of
       None \<Rightarrow> Inl (SystemError ''ENOENT'' p)
     | Some n \<Rightarrow> Inr n)"

text \<open>
  Writing a file needs its directory (its absence is reported as \<open>ENOENT\<close>, whatever
  stands in its place); a directory cannot be overwritten by a file.
\<close>

definition writeFile :: "string \<Rightarrow> string \<Rightarrow> world \<Rightarrow> (thrown + unit) \<times> world" where
  "writeFile p c w =
    (if fs w (dirname p) \<noteq> Some Dir then (Inl (SystemError ''ENOENT'' p), w)
     else if fs w p = Some Dir then (Inl (SystemError ''EISDIR'' p), w)
     else (Inr (), w\<lparr>fs := (fs w)(p \<mapsto> File c)\<rparr>))"

definition rm :: "string \<Rightarrow> world \<Rightarrow> (thrown + unit) \<times> world" where
  "rm target w =
    (let w' = w\<lparr>rm_calls := rm_calls w @ [target]\<rparr> in
     case rm_outcome w target of
       Removed \<Rightarrow>
         (Inr (), w'\<lparr>fs := (\<lambda>p. if located_under w target p then None else fs w p)\<rparr>)
     | Unresolved \<Rightarrow> (Inr (), w')
     | Rejected keep \<Rightarrow>
         (Inl (SystemError ''EACCES'' target),
          w'\<lparr>fs := (\<lambda>p. if located_under w target p \<and> \<not> keep p then None
                       else fs w p)\<rparr>))"

text \<open>
  \<open>Bun.spawn(argv, {env})\<close> followed by \<open>await proc.exited\<close>: the call is recorded, then the
  external program either fails to launch or runs to its exit, leaving its file tree.
\<close>

definition spawn :: "string list \<Rightarrow> environ \<Rightarrow> world \<Rightarrow> (thrown + nat) \<times> world" where
  "spawn argv e w =
    (let w' = w\<lparr>spawned := spawned w @ [argv]\<rparr> in
     case run w argv e (fs w) of
       Inl f \<Rightarrow> (Inl (SpawnFailed f), w')
     | Inr (status, fs') \<Rightarrow> (Inr status, w'\<lparr>fs := fs'\<rparr>))"

definition print :: "printed list \<Rightarrow> world \<Rightarrow> world" where
  "print ls w = w\<lparr>console := console w @ ls\<rparr>"

section \<open>Workspace root (shared/agents/config/paths.ts)\<close>

definition WORKSPACE_DIRNAME :: string where
  "WORKSPACE_DIRNAME = ''.clawtutor''"

definition LEGACY_WORKSPACE_DIRNAME :: string where
  "LEGACY_WORKSPACE_DIRNAME = ''.codemachine''"

definition resolveWorkspaceRoot :: "world \<Rightarrow> string \<Rightarrow> string" where
  "resolveWorkspaceRoot w dir =
    (let clawtutorRoot = path_join [dir, WORKSPACE_DIRNAME];
         legacyRoot = path_join [dir, LEGACY_WORKSPACE_DIRNAME]
     in if existsSync w clawtutorRoot then clawtutorRoot
        else if existsSync w legacyRoot then legacyRoot
        else clawtutorRoot)"

section \<open>The OpenCode auth controller (unnamed/part_001)\<close>

text \<open>
  The descriptor's \<open>metadata\<close> (metadata.js, not among the sources) is a parameter; the
  controller reads its \<open>name\<close>, \<open>cliBinary\<close> and \<open>installCommand\<close>.
\<close>

record metadata =
  engine_id :: string
  name :: string
  description :: string
  cliBinary :: string
  installCommand :: string

datatype menu_action = Login | Logout

text \<open>
  \<open>ENV.OPENCODE_HOME\<close> of config.js: the variable the doc comment of
  \<open>resolveOpenCodeHome\<close> names.
\<close>

definition ENV_OPENCODE_HOME :: string where
  "ENV_OPENCODE_HOME = ''CLAWTUTOR_OPENCODE_HOME''"

definition resolveOpenCodeHome :: "string option \<Rightarrow> world \<Rightarrow> string option" where
  "resolveOpenCodeHome customPath w =
    (let configured = (case customPath of None \<Rightarrow> env w ENV_OPENCODE_HOME | Some c \<Rightarrow> Some c)
     in case truthy_string configured of
          None \<Rightarrow> None
        | Some c \<Rightarrow> Some (expandHomeDir w c))"

definition isCliInstalled :: "world \<Rightarrow> string \<Rightarrow> bool" where
  "isCliInstalled w command \<longleftrightarrow> which w command \<noteq> None"

definition isAuthenticated :: "metadata \<Rightarrow> world \<Rightarrow> bool" where
  "isAuthenticated md w = isCliInstalled w (cliBinary md)"

definition resolveOpenCodeDataDir :: "world \<Rightarrow> string" where
  "resolveOpenCodeDataDir w =
    (case truthy_string (resolveOpenCodeHome None w) of
       Some opencodeHome \<Rightarrow> path_join [opencodeHome, ''data'']
     | None \<Rightarrow>
         (let xdgData =
            (case truthy_string (env w ''XDG_DATA_HOME'') of
               Some v \<Rightarrow> expandHomeDir w v
             | None \<Rightarrow> path_join [homedir w, ''.local'', ''share''])
          in path_join [xdgData, ''opencode'']))"

definition resolveOpenCodeConfigDir :: "world \<Rightarrow> string" where
  "resolveOpenCodeConfigDir w =
    (case truthy_string (resolveOpenCodeHome None w) of
       Some opencodeHome \<Rightarrow> path_join [opencodeHome, ''config'']
     | None \<Rightarrow>
         (let xdgConfig =
            (case truthy_string (env w ''XDG_CONFIG_HOME'') of
               Some v \<Rightarrow> expandHomeDir w v
             | None \<Rightarrow> path_join [homedir w, ''.config''])
          in path_join [xdgConfig, ''opencode'']))"

definition resolveOpenCodeCacheDir :: "world \<Rightarrow> string" where
  "resolveOpenCodeCacheDir w =
    (case truthy_string (resolveOpenCodeHome None w) of
       Some opencodeHome \<Rightarrow> path_join [opencodeHome, ''cache'']
     | None \<Rightarrow>
         (let xdgCache =
            (case truthy_string (env w ''XDG_CACHE_HOME'') of
               Some v \<Rightarrow> expandHomeDir w v
             | None \<Rightarrow> path_join [homedir w, ''.cache''])
          in path_join [xdgCache, ''opencode'']))"

text \<open>
  The credential probe: any failure of the read or of the parse is caught and gives
  \<open>false\<close>.
\<close>

definition hasOpenCodeCredential :: "world \<Rightarrow> string \<Rightarrow> bool" where
  "hasOpenCodeCredential w providerId =
    (let authPath = path_join [resolveOpenCodeDataDir w, ''auth.json'']
     in case readFile w authPath of
          Inl err \<Rightarrow> False
        | Inr raw \<Rightarrow>
            (case JSON_parse w raw of
               None \<Rightarrow> False
             | Some v \<Rightarrow> truthy v \<and> typeof_object v \<and> js_in providerId v))"

text \<open>
  Modelled from the spec: \<open>ensureAuthDirectory\<close> of core/auth.js, which is not among the
  sources. The spec (4.4, step 2): "Ensure the engine's private state directory exists."
  The spec gives the step no failure, so the model has none: afterwards the directory
  exists, inside its parent directories, whatever was at these paths before.
\<close>

definition ensureAuthDirectory :: "string \<Rightarrow> world \<Rightarrow> world" where
  "ensureAuthDirectory dir w =
    w\<lparr>fs := (\<lambda>p. if is_under p dir then Some Dir else fs w p)\<rparr>"

text \<open>
  Modelled from the spec: \<open>displayCliNotInstalledError\<close> of core/auth.js, which is not
  among the sources. The spec (4.4, step 3): "surface a formatted "not installed"
  message".
\<close>

definition displayCliNotInstalledError :: "metadata \<Rightarrow> world \<Rightarrow> world" where
  "displayCliNotInstalledError md w = print [NotInstalledNotice (name md)] w"

text \<open>
  Modelled from the spec: \<open>isCommandNotFoundError\<close> of core/auth.js, which is not among
  the sources. The spec (7): "only a genuine "binary not found at launch time" is
  escalated".
\<close>

fun isCommandNotFoundError :: "thrown \<Rightarrow> bool" where
  "isCommandNotFoundError (SpawnFailed CommandNotFound) = True"
| "isCommandNotFoundError e = False"

definition notInstalledError :: "metadata \<Rightarrow> thrown" where
  "notInstalledError md = Error (name md @ '' CLI is not installed.'')"

text \<open>
  The environment of the login child: the process environment, with the three XDG
  variables redirected when the override is configured.
\<close>

definition loginEnv :: "world \<Rightarrow> environ" where
  "loginEnv w =
    (case truthy_string (resolveOpenCodeHome None w) of
       None \<Rightarrow> env w
     | Some opencodeHome \<Rightarrow>
         (env w)(''XDG_CONFIG_HOME'' \<mapsto> path_join [opencodeHome, ''config''],
                 ''XDG_CACHE_HOME'' \<mapsto> path_join [opencodeHome, ''cache''],
                 ''XDG_DATA_HOME'' \<mapsto> path_join [opencodeHome, ''data'']))"

definition loginArgv :: "world \<Rightarrow> string list" where
  "loginArgv w =
    [(case which w ''opencode'' of None \<Rightarrow> ''opencode'' | Some resolved \<Rightarrow> resolved),
     ''auth'', ''login'']"

definition ensureAuth :: "metadata \<Rightarrow> bool \<Rightarrow> world \<Rightarrow> (thrown + bool) \<times> world" where
  "ensureAuth md forceLogin w =
    (let dataDir = resolveOpenCodeDataDir w in
     if \<not> forceLogin \<and> hasOpenCodeCredential w ''opencode'' then (Inr True, w)
     else
       let w1 = ensureAuthDirectory dataDir w in
       if \<not> isCliInstalled w1 (cliBinary md) then
         (Inl (notInstalledError md), displayCliNotInstalledError md w1)
       else
         case spawn (loginArgv w1) (loginEnv w1) w1 of
           (Inl err, w2) \<Rightarrow>
             if isCommandNotFoundError err then
               (Inl (notInstalledError md),
                print [CliNotFoundNotice (name md) (cliBinary md) (installCommand md)] w2)
             else (Inl err, w2)
         | (Inr status, w2) \<Rightarrow>
             (let authPath = path_join [resolveOpenCodeDataDir w2, ''auth.json''] in
              case stat w2 authPath of
                Inr found \<Rightarrow> (Inr True, w2)
              | Inl missing \<Rightarrow>
                  (case writeFile authPath ''{}'' w2 of
                     (Inl err, w3) \<Rightarrow> (Inl err, w3)
                   | (Inr written, w3) \<Rightarrow> (Inr True, w3))))"

text \<open>The loop of \<open>clearAuth\<close>: each removal in turn, a rejection ignored.\<close>

fun removeAll_targets :: "string list \<Rightarrow> world \<Rightarrow> world" where
  "removeAll_targets [] w = w"
| "removeAll_targets (target # targets) w =
    (case rm target w of
       (Inl ignored, w') \<Rightarrow> removeAll_targets targets w'
     | (Inr removed, w') \<Rightarrow> removeAll_targets targets w')"

definition clearAuth_targets :: "world \<Rightarrow> string list" where
  "clearAuth_targets w =
    (case truthy_string (resolveOpenCodeHome None w) of
       Some opencodeHome \<Rightarrow> [opencodeHome]
     | None \<Rightarrow>
         [resolveOpenCodeConfigDir w, resolveOpenCodeCacheDir w, resolveOpenCodeDataDir w])"

definition clearAuth :: "metadata \<Rightarrow> world \<Rightarrow> (thrown + unit) \<times> world" where
  "clearAuth md w =
    (let opencodeHome = truthy_string (resolveOpenCodeHome None w);
         w1 = removeAll_targets (clearAuth_targets w) w;
         w2 = print [Log (name md @ '' authentication cleared.'')] w1
     in (Inr (),
         case opencodeHome of
           Some h \<Rightarrow>
             print [Log (''Removed OpenCode home directory at '' @ h @ '' (if it existed).'')] w2
         | None \<Rightarrow> print [Log ''Removed OpenCode XDG directories (if they existed).''] w2))"

definition nextAuthMenuAction :: "metadata \<Rightarrow> world \<Rightarrow> menu_action" where
  "nextAuthMenuAction md w =
    (let cli = isAuthenticated md w in
     if \<not> cli then Login
     else
       let hasMembership = hasOpenCodeCredential w ''opencode'' in
       if hasMembership then Logout else Login)"

section \<open>CLI entry (unnamed/part_000)\<close>

subsection \<open>The home-directory check at boot\<close>

datatype boot = Exited nat | Continue

text \<open>\<open>process.env.CLAWTUTOR_CWD || process.cwd()\<close>\<close>

definition earlyCwd :: "world \<Rightarrow> string" where
  "earlyCwd w = (case truthy_string (env w ''CLAWTUTOR_CWD'') of Some d \<Rightarrow> d | None \<Rightarrow> cwd w)"

text \<open>
  The argument after the first \<open>--dir\<close> or \<open>-d\<close>: \<open>null\<close> when there is no such flag,
  \<open>undefined\<close> when the flag is the last argument; both are \<open>None\<close>.
\<close>

definition explicitDir :: "string list \<Rightarrow> string option" where
  "explicitDir args =
    (case dropWhile (\<lambda>arg. \<not> (arg = ''--dir'' \<or> arg = ''-d'')) args of
       [] \<Rightarrow> None
     | flag # rest \<Rightarrow> (case rest of [] \<Rightarrow> None | d # others \<Rightarrow> Some d))"

definition targetCwd :: "string list \<Rightarrow> world \<Rightarrow> string" where
  "targetCwd args w =
    (case truthy_string (explicitDir args) of Some d \<Rightarrow> d | None \<Rightarrow> earlyCwd w)"

text \<open>
  The \<open>try\<close> block: either \<open>realpathSync\<close> may throw, and the \<open>catch\<close> lets the boot go on.
  \<open>process.exit(1)\<close> ends the process.
\<close>

definition homeDirectoryCheck :: "string list \<Rightarrow> world \<Rightarrow> boot \<times> world" where
  "homeDirectoryCheck args w =
    (let home = homedir w in
     case realpath w (targetCwd args w) of
       None \<Rightarrow> (Continue, w)
     | Some resolvedTarget \<Rightarrow>
         (case realpath w home of
            None \<Rightarrow> (Continue, w)
          | Some resolvedHome \<Rightarrow>
              if resolvedTarget = resolvedHome
              then (Exited 1, print [HomeDirectoryNotice] w)
              else (Continue, w)))"

subsection \<open>Engines and their registry\<close>

text \<open>
  An engine descriptor: its metadata, its auth operations and its optional
  \<open>syncConfig\<close>. The operations of an arbitrary engine may throw and may change the
  world; a \<open>syncConfig\<close> works on the files.
\<close>

record engine =
  engine_metadata :: metadata
  auth_nextAuthMenuAction :: "world \<Rightarrow> (thrown + menu_action) \<times> world"
  auth_ensureAuth :: "bool \<Rightarrow> world \<Rightarrow> (thrown + bool) \<times> world"
  auth_clearAuth :: "world \<Rightarrow> (thrown + unit) \<times> world"
  syncConfig :: "(files \<Rightarrow> thrown + files) option"

text \<open>
  The engine registry (infra/engines) is outside the files modelled here. Its two
  operations are parameters: \<open>registry.getAll()\<close>, the descriptors in registration order,
  and \<open>registry.get(id)\<close>, a descriptor or \<open>undefined\<close>.
\<close>

record registry =
  registry_getAll :: "engine list"
  registry_get :: "string \<Rightarrow> engine option"

subsection \<open>The background initializer\<close>

text \<open>The call of \<open>ensureWorkspaceStructure({cwd})\<close>, recorded.\<close>

definition bootstrapWorkspace :: "string \<Rightarrow> world \<Rightarrow> (thrown + unit) \<times> world" where
  "bootstrapWorkspace dir w =
    (let w' = w\<lparr>init_log := init_log w @ [Bootstrapped dir]\<rparr> in
     case ensureWorkspaceStructure w dir (fs w) of
       Inl err \<Rightarrow> (Inl err, w')
     | Inr fs' \<Rightarrow> (Inr (), w'\<lparr>fs := fs'\<rparr>))"

text \<open>
  The loop over the engines: each \<open>await engine.syncConfig()\<close> is recorded and runs on
  the files the one before left; one that throws ends the loop.
\<close>

fun syncEngines :: "engine list \<Rightarrow> world \<Rightarrow> (thrown + unit) \<times> world" where
  "syncEngines [] w = (Inr (), w)"
| "syncEngines (e # es) w =
    (case syncConfig e of
       None \<Rightarrow> syncEngines es w
     | Some sync \<Rightarrow>
         (let w' = w\<lparr>init_log := init_log w @ [Synced (engine_id (engine_metadata e))]\<rparr> in
          case sync (fs w') of
            Inl err \<Rightarrow> (Inl err, w')
          | Inr fs' \<Rightarrow> syncEngines es (w'\<lparr>fs := fs'\<rparr>)))"

definition initializeInBackground :: "registry \<Rightarrow> string \<Rightarrow> world \<Rightarrow> (thrown + unit) \<times> world" where
  "initializeInBackground reg dir w =
    (let cmRoot = resolveWorkspaceRoot w dir in
     case (if \<not> existsSync w cmRoot then bootstrapWorkspace dir w else (Inr (), w)) of
       (Inl err, w1) \<Rightarrow> (Inl err, w1)
     | (Inr bootstrapped, w1) \<Rightarrow> syncEngines (registry_getAll reg) w1)"

section \<open>The auth commands (cli/commands/auth.command.ts)\<close>

definition selectAuthProvider :: "registry \<Rightarrow> world \<Rightarrow> string option" where
  "selectAuthProvider reg w =
    selectFromMenu w ''Choose authentication provider:''
      (map (\<lambda>e. \<lparr>choice_title = name (engine_metadata e),
                  choice_value = engine_id (engine_metadata e),
                  choice_description = description (engine_metadata e)\<rparr>)
           (registry_getAll reg))"

text \<open>The branch of \<open>handleLogin\<close> for an OpenCode engine that is already authenticated.\<close>

definition opencodeAlreadyAuthenticated :: "engine \<Rightarrow> world \<Rightarrow> (thrown + unit) \<times> world" where
  "opencodeAlreadyAuthenticated e w =
    (let w1 = print [AlreadyAuthenticatedNotice (name (engine_metadata e))] w;
         opencodeHome =
           (case truthy_string (env w1 ''OPENCODE_HOME'') of
              Some v \<Rightarrow> expandHomeDir w1 v
            | None \<Rightarrow> path_join [homedir w1, ''.clawtutor'', ''opencode'']);
         xdgEnv =
           (env w1)(''XDG_CONFIG_HOME'' \<mapsto> path_join [opencodeHome, ''config''],
                    ''XDG_CACHE_HOME'' \<mapsto> path_join [opencodeHome, ''cache''],
                    ''XDG_DATA_HOME'' \<mapsto> path_join [opencodeHome, ''data'']);
         w2 = print [Log ''Current authentication providers:''] w1;
         w3 =
           (case spawn [''opencode'', ''auth'', ''list''] xdgEnv w2 of
              (Inl err, w') \<Rightarrow> print [Log ''(Unable to fetch auth list)''] w'
            | (Inr status, w') \<Rightarrow> w');
         w4 = print [Log ''''] w3
     in case confirm w4 ''Do you want to add another authentication provider?'' of
          Cancelled \<Rightarrow> (Inr (), print [Log ''Authentication update cancelled.''] w4)
        | Answered addAnother \<Rightarrow>
            if addAnother then
              (case auth_ensureAuth e True w4 of
                 (Inl err, w5) \<Rightarrow> (Inl err, w5)
               | (Inr ok, w5) \<Rightarrow>
                   (Inr (),
                    print [Log (name (engine_metadata e)
                                @ '' authentication provider added successfully.'')] w5))
            else
              (Inr (),
               print [Log ''To sign out and clear all data: clawtutor auth logout'',
                      RuleLine] w4))"

definition handleLogin :: "registry \<Rightarrow> string \<Rightarrow> world \<Rightarrow> (thrown + unit) \<times> world" where
  "handleLogin reg providerId w =
    (case registry_get reg providerId of
       None \<Rightarrow> (Inl (Error (''Unknown provider: '' @ providerId)), w)
     | Some e \<Rightarrow>
         (case auth_nextAuthMenuAction e w of
            (Inl err, w1) \<Rightarrow> (Inl err, w1)
          | (Inr action, w1) \<Rightarrow>
              if action = Logout then
                if providerId = ''opencode'' then opencodeAlreadyAuthenticated e w1
                else
                  (Inr (),
                   print [Log (''Already authenticated with '' @ name (engine_metadata e)
                               @ ''. Use clawtutor auth logout to sign out.'')] w1)
              else
                (case auth_ensureAuth e False w1 of
                   (Inl err, w2) \<Rightarrow> (Inl err, w2)
                 | (Inr ok, w2) \<Rightarrow>
                     (Inr (),
                      print [Log (name (engine_metadata e)
                                  @ '' authentication successful.'')] w2))))"

definition handleLogout :: "registry \<Rightarrow> string \<Rightarrow> world \<Rightarrow> (thrown + unit) \<times> world" where
  "handleLogout reg providerId w =
    (case registry_get reg providerId of
       None \<Rightarrow> (Inl (Error (''Unknown provider: '' @ providerId)), w)
     | Some e \<Rightarrow>
         (case auth_clearAuth e w of
            (Inl err, w1) \<Rightarrow> (Inl err, w1)
          | (Inr cleared, w1) \<Rightarrow>
              (Inr (),
               print [Log (''Signed out from '' @ name (engine_metadata e)
                           @ ''. Next action will be login.'')] w1)))"

text \<open>
  The actions \<open>registerAuthCommands\<close> gives to \<open>auth login\<close> and \<open>auth logout\<close>. An
  action that returns normally is a successful command; one that throws is reported by
  the caller as an error.
\<close>

definition authLoginAction :: "registry \<Rightarrow> world \<Rightarrow> (thrown + unit) \<times> world" where
  "authLoginAction reg w =
    (case truthy_string (selectAuthProvider reg w) of
       None \<Rightarrow> (Inr (), print [Log ''No provider selected.''] w)
     | Some provider \<Rightarrow> handleLogin reg provider w)"

definition authLogoutAction :: "registry \<Rightarrow> world \<Rightarrow> (thrown + unit) \<times> world" where
  "authLogoutAction reg w =
    (case truthy_string (selectAuthProvider reg w) of
       None \<Rightarrow> (Inr (), print [Log ''No provider selected.''] w)
     | Some provider \<Rightarrow> handleLogout reg provider w)"

section \<open>Concrete worlds\<close>

text \<open>
  An engine whose auth operations are the controller of part_001, and the registry of a
  list of engines, which looks an id up in the list.
\<close>

definition opencodeEngine :: "metadata \<Rightarrow> engine" where
  "opencodeEngine md =
    \<lparr>engine_metadata = md,
     auth_nextAuthMenuAction = (\<lambda>w. (Inr (nextAuthMenuAction md w), w)),
     auth_ensureAuth = ensureAuth md,
     auth_clearAuth = clearAuth md,
     syncConfig = None\<rparr>"

definition registry_of :: "engine list \<Rightarrow> registry" where
  "registry_of engines =
    \<lparr>registry_getAll = engines,
     registry_get = (\<lambda>ident. find (\<lambda>e. engine_id (engine_metadata e) = ident) engines)\<rparr>"

text \<open>
  A small machine on which the theorems below are run: a user \<open>u\<close> with the OpenCode
  binary on the path and a credential file that holds the \<open>opencode\<close> key.
\<close>

definition demo_md :: metadata where
  "demo_md =
    \<lparr>engine_id = ''opencode'', name = ''OpenCode'', description = ''OpenCode CLI'',
     cliBinary = ''opencode'', installCommand = ''npm install -g opencode-ai''\<rparr>"

definition credential_text :: string where
  "credential_text = ''{'' @ [CHR 0x22] @ ''opencode'' @ [CHR 0x22] @ '':{}}''"

definition demo_parse :: "string \<Rightarrow> json option" where
  "demo_parse raw =
    (if raw = ''{}'' then Some (JObject [])
     else if raw = credential_text then Some (JObject [(''opencode'', JObject [])])
     else None)"

definition demo_dirs :: "(string \<times> node) list" where
  "demo_dirs =
    [(''/home/u'', Dir), (''/home/u/.local'', Dir), (''/home/u/.local/share'', Dir),
     (''/home/u/.local/share/opencode'', Dir)]"

definition demo_auth_path :: string where
  "demo_auth_path = ''/home/u/.local/share/opencode/auth.json''"

definition demo_world :: world where
  "demo_world =
    \<lparr>fs = map_of ((demo_auth_path, File credential_text) # demo_dirs),
     env = (\<lambda>v. None),
     cwd = ''/work/project'',
     homedir = ''/home/u'',
     which = (\<lambda>c. if c = ''opencode'' then Some ''/usr/bin/opencode'' else None),
     realpath = Some,
     JSON_parse = demo_parse,
     expandHomeDir = (\<lambda>p. p),
     rm_outcome = (\<lambda>target. Removed),
     run = (\<lambda>argv e f. Inr (0, f)),
     ensureWorkspaceStructure = (\<lambda>dir f. Inr (f(path_join [dir, WORKSPACE_DIRNAME] \<mapsto> Dir))),
     selectFromMenu = (\<lambda>message choices. None),
     confirm = (\<lambda>message. Cancelled),
     spawned = [],
     rm_calls = [],
     console = [],
     init_log = []\<rparr>"

text \<open>
  The machine with one project that has only the legacy directory and one that has both
  directories.
\<close>

definition demo_legacy :: world where
  "demo_legacy =
    demo_world\<lparr>fs := map_of
      [(''/work/legacy/.codemachine'', Dir),
       (''/work/both/.codemachine'', Dir), (''/work/both/.clawtutor'', Dir)]\<rparr>"

text \<open>The same machine before any login, and the same machine without the binary.\<close>

definition demo_fresh :: world where
  "demo_fresh = demo_world\<lparr>fs := map_of demo_dirs\<rparr>"

definition demo_absent :: world where
  "demo_absent = demo_world\<lparr>which := (\<lambda>c. None)\<rparr>"

text \<open>
  The machine from which the binary vanishes between the check and the launch, and a
  machine with neither the binary nor any of the directories.
\<close>

definition demo_vanished :: world where
  "demo_vanished = demo_fresh\<lparr>run := (\<lambda>argv e f. Inl CommandNotFound)\<rparr>"

definition demo_bare :: world where
  "demo_bare = demo_absent\<lparr>fs := (\<lambda>p. None)\<rparr>"



text \<open>
  The machine on which \<open>/work/link\<close> is a symbolic link to the home directory and no other
  path but the home directory resolves.
\<close>

definition demo_links :: world where
  "demo_links =
    demo_world\<lparr>realpath :=
      (\<lambda>p. if p = ''/work/link'' \<or> p = ''/home/u'' then Some ''/home/u'' else None)\<rparr>"

text \<open>
  Registries: engines \<open>a\<close> and \<open>b\<close> with a \<open>syncConfig\<close> and engine \<open>c\<close> without one, where
  the \<open>syncConfig\<close> of \<open>b\<close> copies the file that the one of \<open>a\<close> writes; in the second
  registry the \<open>syncConfig\<close> of \<open>a\<close> throws. And the machine on which the bootstrap of the
  workspace throws.
\<close>

definition demo_engine :: "string \<Rightarrow> (files \<Rightarrow> thrown + files) option \<Rightarrow> engine" where
  "demo_engine ident sync = (opencodeEngine (demo_md\<lparr>engine_id := ident\<rparr>))\<lparr>syncConfig := sync\<rparr>"

definition demo_registry :: registry where
  "demo_registry =
    registry_of
      [demo_engine ''a'' (Some (\<lambda>f. Inr (f(''/home/u/.a'' \<mapsto> File ''a'')))),
       demo_engine ''c'' None,
       demo_engine ''b'' (Some (\<lambda>f. Inr (f(''/home/u/.b'' := f ''/home/u/.a''))))]"

definition demo_registry_failing :: registry where
  "demo_registry_failing =
    registry_of
      [demo_engine ''a'' (Some (\<lambda>f. Inl (Error ''sync failed''))),
       demo_engine ''b'' (Some (\<lambda>f. Inr (f(''/home/u/.b'' \<mapsto> File ''b''))))]"

definition demo_readonly :: world where
  "demo_readonly =
    demo_world\<lparr>ensureWorkspaceStructure := (\<lambda>dir f. Inl (SystemError ''EROFS'' dir))\<rparr>"

text \<open>The machine on which the menu answers with an id that no engine has.\<close>

definition demo_ghost :: world where
  "demo_ghost = demo_world\<lparr>selectFromMenu := (\<lambda>message choices. Some ''ghost'')\<rparr>"

section \<open>Theorems\<close>

subsection \<open>Evaluation\<close>

lemmas demo_defs = demo_world_def demo_fresh_def demo_absent_def demo_md_def demo_parse_def
  demo_dirs_def demo_auth_path_def credential_text_def

lemmas path_eval = path_join_def normalize_def normalizeString_def normalize_step_def Let_def

lemmas model_defs = ensureAuth_def hasOpenCodeCredential_def resolveOpenCodeDataDir_def
  resolveOpenCodeHome_def ENV_OPENCODE_HOME_def path_eval readFile_def stat_def
  writeFile_def spawn_def print_def isCliInstalled_def ensureAuthDirectory_def
  displayCliNotInstalledError_def notInstalledError_def loginArgv_def loginEnv_def
  is_under_def dirname_def object_has_def

subsection \<open>The workspace root\<close>

text \<open>
  C6. For every working directory, \<open>resolveWorkspaceRoot\<close> returns the current-convention
  path \<open>path.join(cwd, '.clawtutor')\<close> if something exists there, else the legacy path
  \<open>path.join(cwd, '.codemachine')\<close> if something exists there, else the current-convention
  path; it is a function of the world that only asks for existence, so it always returns
  a path and changes nothing.
\<close>

theorem resolveWorkspaceRoot_precedence:
  "resolveWorkspaceRoot w dir =
     (if fs w (path_join [dir, ''.clawtutor'']) \<noteq> None then path_join [dir, ''.clawtutor'']
      else if fs w (path_join [dir, ''.codemachine'']) \<noteq> None
           then path_join [dir, ''.codemachine'']
      else path_join [dir, ''.clawtutor''])"
  by (simp add: resolveWorkspaceRoot_def existsSync_def
      WORKSPACE_DIRNAME_def LEGACY_WORKSPACE_DIRNAME_def)

text \<open>
  The theorem on working directories that are not in normal form: a trailing separator, a
  \<open>..\<close> segment, the root and the empty string.
\<close>

theorem resolveWorkspaceRoot_precedence_witness:
  "resolveWorkspaceRoot demo_legacy ''/work/legacy/'' = ''/work/legacy/.codemachine'' \<and>
   resolveWorkspaceRoot demo_legacy ''/work/x/../both'' = ''/work/both/.clawtutor'' \<and>
   resolveWorkspaceRoot demo_legacy ''/'' = ''/.clawtutor'' \<and>
   resolveWorkspaceRoot demo_legacy [] = ''.clawtutor''"
proof -
  have j: "path_join [''/work/legacy/'', ''.clawtutor''] = ''/work/legacy/.clawtutor''"
    "path_join [''/work/legacy/'', ''.codemachine''] = ''/work/legacy/.codemachine''"
    "path_join [''/work/x/../both'', ''.clawtutor''] = ''/work/both/.clawtutor''"
    "path_join [''/'', ''.clawtutor''] = ''/.clawtutor''"
    "path_join [''/'', ''.codemachine''] = ''/.codemachine''"
    "path_join [[], ''.clawtutor''] = ''.clawtutor''"
    "path_join [[], ''.codemachine''] = ''.codemachine''"
    by (simp_all add: path_eval)
  show ?thesis
    using resolveWorkspaceRoot_precedence[of demo_legacy "''/work/legacy/''"]
      resolveWorkspaceRoot_precedence[of demo_legacy "''/work/x/../both''"]
      resolveWorkspaceRoot_precedence[of demo_legacy "''/''"]
      resolveWorkspaceRoot_precedence[of demo_legacy "[]"]
    by (simp add: j demo_legacy_def demo_defs)
qed

subsection \<open>Frame lemmas\<close>

lemma ensureAuthDirectory_frame [simp]:
  "env (ensureAuthDirectory d w) = env w"
  "homedir (ensureAuthDirectory d w) = homedir w"
  "expandHomeDir (ensureAuthDirectory d w) = expandHomeDir w"
  "which (ensureAuthDirectory d w) = which w"
  "run (ensureAuthDirectory d w) = run w"
  "JSON_parse (ensureAuthDirectory d w) = JSON_parse w"
  "spawned (ensureAuthDirectory d w) = spawned w"
  "console (ensureAuthDirectory d w) = console w"
  by (simp_all add: ensureAuthDirectory_def)

lemma resolveOpenCodeHome_cong:
  "env w' = env w \<Longrightarrow> expandHomeDir w' = expandHomeDir w \<Longrightarrow>
   resolveOpenCodeHome c w' = resolveOpenCodeHome c w"
  by (simp add: resolveOpenCodeHome_def cong: option.case_cong)

lemma resolveOpenCodeDataDir_cong:
  "env w' = env w \<Longrightarrow> homedir w' = homedir w \<Longrightarrow> expandHomeDir w' = expandHomeDir w \<Longrightarrow>
   resolveOpenCodeDataDir w' = resolveOpenCodeDataDir w"
  by (simp add: resolveOpenCodeDataDir_def resolveOpenCodeHome_def cong: option.case_cong)

lemma loginArgv_ensureAuthDirectory [simp]:
  "loginArgv (ensureAuthDirectory d w) = loginArgv w"
  by (simp add: loginArgv_def)

lemma loginEnv_ensureAuthDirectory [simp]:
  "loginEnv (ensureAuthDirectory d w) = loginEnv w"
  by (simp add: loginEnv_def resolveOpenCodeHome_def cong: option.case_cong)

lemma notInstalledError_distinct [simp]:
  "SpawnFailed f \<noteq> notInstalledError md"
  "SystemError c p \<noteq> notInstalledError md"
  "notInstalledError md \<noteq> SpawnFailed f"
  "notInstalledError md \<noteq> SystemError c p"
  by (simp_all add: notInstalledError_def)

lemma isCommandNotFoundError_iff:
  "isCommandNotFoundError e \<longleftrightarrow> e = SpawnFailed CommandNotFound"
  by (cases e rule: isCommandNotFoundError.cases) simp_all

subsection \<open>Paths\<close>

lemma split_slash_not_Nil [simp]: "split_slash s \<noteq> []"
  by (induction s) (auto split: list.splits)



lemma split_slash_free: "x \<in> set (split_slash s) \<Longrightarrow> CHR ''/'' \<notin> set x"
  by (induction s arbitrary: x) (auto split: list.splits if_splits)




lemma proper_step: "proper st \<Longrightarrow> CHR ''/'' \<notin> set x \<Longrightarrow> proper (normalize_step allow st x)"
  by (auto simp add: proper_def normalize_step_def split: list.splits)

lemma proper_foldl:
  "proper st \<Longrightarrow> \<forall>x\<in>set xs. CHR ''/'' \<notin> set x \<Longrightarrow> proper (foldl (normalize_step allow) st xs)"
  by (induction xs arbitrary: st) (simp_all add: proper_step)



















lemma state_segments:
  "x \<in> set (foldl (normalize_step allow) [] (split_slash a)) \<Longrightarrow> x \<noteq> [] \<and> CHR ''/'' \<notin> set x"
proof -
  have "proper (foldl (normalize_step allow) [] (split_slash a))"
    by (rule proper_foldl) (simp_all add: proper_def split_slash_free)
  then show "x \<in> set (foldl (normalize_step allow) [] (split_slash a)) \<Longrightarrow> x \<noteq> [] \<and> CHR ''/'' \<notin> set x"
    by (simp add: proper_def)
qed







subsection \<open>The credential probe\<close>

lemma string_of_nat_digits: "set (string_of_nat n) \<subseteq> set ''0123456789''"
proof (induction n rule: string_of_nat.induct)
  case (1 n)
  have digit: "\<And>k. k < 10 \<Longrightarrow> ''0123456789'' ! k \<in> set ''0123456789''"
    by (rule nth_mem) simp
  show ?case
  proof (cases "n < 10")
    case True
    then show ?thesis
      using digit[of n] by (subst string_of_nat.simps) simp
  next
    case False
    have "n mod 10 < 10" by simp
    then show ?thesis
      using False 1 digit[of "n mod 10"] by (subst string_of_nat.simps) simp
  qed
qed

lemma opencode_not_index: "''opencode'' \<noteq> string_of_nat i"
proof
  assume "''opencode'' = string_of_nat i"
  then have "CHR ''o'' \<in> set (string_of_nat i)"
    by (metis list.set_intros(1))
  then show False
    using string_of_nat_digits[of i] by auto
qed

lemma js_in_opencode:
  "truthy v \<and> typeof_object v \<and> js_in ''opencode'' v \<longleftrightarrow>
     (\<exists>kvs. v = JObject kvs \<and> ''opencode'' \<in> fst ` set kvs)"
  by (cases v)
    (auto simp add: object_has_def array_has_def Object_prototype_names_def
      Array_prototype_names_def opencode_not_index)

text \<open>
  The probe reports a credential exactly when the credential file can be read and parses
  to an object that has the key \<open>opencode\<close>.
\<close>

lemma hasOpenCodeCredential_opencode:
  "hasOpenCodeCredential w ''opencode'' \<longleftrightarrow>
     (\<exists>raw kvs. fs w (path_join [resolveOpenCodeDataDir w, ''auth.json'']) = Some (File raw)
        \<and> JSON_parse w raw = Some (JObject kvs) \<and> ''opencode'' \<in> fst ` set kvs)"
proof -
  have "hasOpenCodeCredential w ''opencode'' \<longleftrightarrow>
     (\<exists>raw v. fs w (path_join [resolveOpenCodeDataDir w, ''auth.json'']) = Some (File raw)
        \<and> JSON_parse w raw = Some v
        \<and> (truthy v \<and> typeof_object v \<and> js_in ''opencode'' v))"
    by (auto simp add: hasOpenCodeCredential_def readFile_def Let_def
        split: option.splits node.splits)
  then show ?thesis
    unfolding js_in_opencode by auto
qed

subsection \<open>The branches of \<open>ensureAuth\<close>\<close>

lemma ensureAuth_short:
  "\<not> forceLogin \<Longrightarrow> hasOpenCodeCredential w ''opencode'' \<Longrightarrow>
   ensureAuth md forceLogin w = (Inr True, w)"
  by (simp add: ensureAuth_def)

lemma ensureAuth_absent:
  "forceLogin \<or> \<not> hasOpenCodeCredential w ''opencode'' \<Longrightarrow> which w (cliBinary md) = None \<Longrightarrow>
   ensureAuth md forceLogin w =
     (Inl (notInstalledError md),
      displayCliNotInstalledError md (ensureAuthDirectory (resolveOpenCodeDataDir w) w))"
  by (auto simp add: ensureAuth_def isCliInstalled_def Let_def)

lemma ensureAuth_launch_failed:
  assumes "forceLogin \<or> \<not> hasOpenCodeCredential w ''opencode''"
    and "which w (cliBinary md) \<noteq> None"
    and "w1 = ensureAuthDirectory (resolveOpenCodeDataDir w) w"
    and "run w (loginArgv w) (loginEnv w) (fs w1) = Inl f"
  shows "ensureAuth md forceLogin w =
     (if f = CommandNotFound
      then (Inl (notInstalledError md),
            print [CliNotFoundNotice (name md) (cliBinary md) (installCommand md)]
              (w1\<lparr>spawned := spawned w @ [loginArgv w]\<rparr>))
      else (Inl (SpawnFailed f), w1\<lparr>spawned := spawned w @ [loginArgv w]\<rparr>))"
  using assms
  by (auto simp add: ensureAuth_def isCliInstalled_def Let_def spawn_def
      isCommandNotFoundError_iff)

lemma ensureAuth_exited:
  assumes "forceLogin \<or> \<not> hasOpenCodeCredential w ''opencode''"
    and "which w (cliBinary md) \<noteq> None"
    and "w1 = ensureAuthDirectory (resolveOpenCodeDataDir w) w"
    and "run w (loginArgv w) (loginEnv w) (fs w1) = Inr (status, fs2)"
    and "w2 = w1\<lparr>spawned := spawned w @ [loginArgv w], fs := fs2\<rparr>"
    and "authPath = path_join [resolveOpenCodeDataDir w, ''auth.json'']"
  shows "ensureAuth md forceLogin w =
     (if fs2 authPath \<noteq> None then (Inr True, w2)
      else if fs2 (dirname authPath) \<noteq> Some Dir then (Inl (SystemError ''ENOENT'' authPath), w2)
      else (Inr True, w2\<lparr>fs := fs2(authPath \<mapsto> File ''{}'')\<rparr>))"
proof -
  have dir: "resolveOpenCodeDataDir w2 = resolveOpenCodeDataDir w"
    by (rule resolveOpenCodeDataDir_cong) (simp_all add: assms)
  have sp: "spawn (loginArgv w1) (loginEnv w1) w1 = (Inr status, w2)"
    using assms by (simp add: spawn_def)
  have inst: "isCliInstalled w1 (cliBinary md)"
    using assms(2) by (simp add: isCliInstalled_def assms(3))
  have "ensureAuth md forceLogin w =
     (case stat w2 authPath of
        Inr found \<Rightarrow> (Inr True, w2)
      | Inl missing \<Rightarrow>
          (case writeFile authPath ''{}'' w2 of
             (Inl err, w3) \<Rightarrow> (Inl err, w3)
           | (Inr written, w3) \<Rightarrow> (Inr True, w3)))"
    using assms(1) inst sp dir
    by (auto simp add: ensureAuth_def Let_def assms(3)[symmetric] assms(6)[symmetric]
        cong: sum.case_cong)
  also have "\<dots> =
     (if fs2 authPath \<noteq> None then (Inr True, w2)
      else if fs2 (dirname authPath) \<noteq> Some Dir then (Inl (SystemError ''ENOENT'' authPath), w2)
      else (Inr True, w2\<lparr>fs := fs2(authPath \<mapsto> File ''{}'')\<rparr>))"
    by (auto simp add: stat_def writeFile_def assms(5) split: option.splits)
  finally show ?thesis .
qed

subsection \<open>Claims about \<open>ensureAuth\<close>\<close>

text \<open>
  C1, as amended. \<open>ensureAuth\<close> calls \<open>Bun.spawn\<close> (once, with the login argument
  vector) exactly when \<open>forceLogin\<close> is set or the probe finds no credential, and the
  binary is found on the path; otherwise it spawns nothing. With \<open>forceLogin\<close> unset and a
  credential present it returns success at once and leaves the world as it was.
\<close>

theorem ensureAuth_spawns_iff:
  "spawned (snd (ensureAuth md forceLogin w)) =
     (if (forceLogin \<or> \<not> hasOpenCodeCredential w ''opencode'') \<and> which w (cliBinary md) \<noteq> None
      then spawned w @ [loginArgv w] else spawned w)
   \<and> (\<not> forceLogin \<and> hasOpenCodeCredential w ''opencode''
        \<longrightarrow> ensureAuth md forceLogin w = (Inr True, w))"
proof (cases "forceLogin \<or> \<not> hasOpenCodeCredential w ''opencode''")
  case False
  then show ?thesis by (simp add: ensureAuth_short)
next
  case reach: True
  show ?thesis
  proof (cases "which w (cliBinary md)")
    case None
    with reach show ?thesis
      by (auto simp add: ensureAuth_absent displayCliNotInstalledError_def print_def)
  next
    case (Some resolved)
    then have inst: "which w (cliBinary md) \<noteq> None" by simp
    show ?thesis
    proof (cases "run w (loginArgv w) (loginEnv w)
                    (fs (ensureAuthDirectory (resolveOpenCodeDataDir w) w))")
      case (Inl f)
      from ensureAuth_launch_failed[OF reach inst refl Inl] reach inst
      show ?thesis by (auto simp add: print_def)
    next
      case (Inr r)
      obtain status fs2 where r: "r = (status, fs2)" by (cases r)
      from ensureAuth_exited[OF reach inst refl Inr[unfolded r] refl refl] reach inst
      show ?thesis by auto
    qed
  qed
qed

theorem ensureAuth_spawns_iff_witness:
  "hasOpenCodeCredential demo_world ''opencode'' \<and>
   ensureAuth demo_md False demo_world = (Inr True, demo_world) \<and>
   which demo_world (cliBinary demo_md) = Some ''/usr/bin/opencode'' \<and>
   spawned (snd (ensureAuth demo_md True demo_world)) = [[''/usr/bin/opencode'', ''auth'', ''login'']]"
proof -
  have c: "hasOpenCodeCredential demo_world ''opencode''"
    by (simp add: model_defs demo_defs)
  have i: "which demo_world (cliBinary demo_md) = Some ''/usr/bin/opencode''"
    by (simp add: demo_defs)
  have a: "loginArgv demo_world = [''/usr/bin/opencode'', ''auth'', ''login'']"
    "spawned demo_world = []"
    by (simp_all add: loginArgv_def demo_defs)
  show ?thesis
    using ensureAuth_spawns_iff[of demo_md False demo_world]
      ensureAuth_spawns_iff[of demo_md True demo_world] c i a
    by simp
qed

text \<open>
  C1 as stated fails: with \<open>forceLogin\<close> set and a credential present, but the binary
  absent, \<open>ensureAuth\<close> throws before it reaches the spawn.
\<close>

theorem ensureAuth_force_without_binary_counterexample:
  "hasOpenCodeCredential demo_absent ''opencode'' \<and>
   fst (ensureAuth demo_md True demo_absent) = Inl (Error ''OpenCode CLI is not installed.'') \<and>
   spawned (snd (ensureAuth demo_md True demo_absent)) = spawned demo_absent"
  by (simp add: model_defs demo_defs)


text \<open>
  C3, as amended. Take a run of \<open>ensureAuth\<close> that got past the short cut, whose login
  child exited, and that returned success. If nothing exists at the path of the credential
  file when the child has exited, the run has written the placeholder: the credential file
  exists with the text \<open>{}\<close>, and reading and parsing it gives the empty object
  (\<open>JSON.parse\<close> being a parser that reads \<open>{}\<close> so). If something exists there, written by
  the child or left from before, the run leaves the files as the child left them.
\<close>

theorem ensureAuth_placeholder:
  assumes ok: "ensureAuth md forceLogin w = (Inr True, w')"
    and reach: "forceLogin \<or> \<not> hasOpenCodeCredential w ''opencode''"
    and tool: "run w (loginArgv w) (loginEnv w)
                 (fs (ensureAuthDirectory (resolveOpenCodeDataDir w) w)) = Inr (status, fs2)"
    and parse: "JSON_parse w ''{}'' = Some (JObject [])"
  shows "(fs2 (path_join [resolveOpenCodeDataDir w, ''auth.json'']) = None \<longrightarrow>
            fs w' (path_join [resolveOpenCodeDataDir w, ''auth.json'']) = Some (File ''{}'') \<and>
            (\<exists>raw. readFile w' (path_join [resolveOpenCodeDataDir w', ''auth.json'']) = Inr raw
                   \<and> JSON_parse w' raw = Some (JObject []))) \<and>
         (fs2 (path_join [resolveOpenCodeDataDir w, ''auth.json'']) \<noteq> None \<longrightarrow> fs w' = fs2)"
proof -
  have inst: "which w (cliBinary md) \<noteq> None"
  proof
    assume "which w (cliBinary md) = None"
    from ensureAuth_absent[OF reach this] ok show False by simp
  qed
  define authPath where "authPath = path_join [resolveOpenCodeDataDir w, ''auth.json'']"
  define w2 where "w2 = (ensureAuthDirectory (resolveOpenCodeDataDir w) w)
      \<lparr>spawned := spawned w @ [loginArgv w], fs := fs2\<rparr>"
  note run = ensureAuth_exited[OF reach inst refl tool w2_def authPath_def]
  have kept: "fs2 authPath \<noteq> None \<longrightarrow> fs w' = fs2"
    using run ok by (auto simp add: w2_def)
  have written: "fs2 authPath = None \<longrightarrow>
      fs w' authPath = Some (File ''{}'') \<and>
      (\<exists>raw. readFile w' (path_join [resolveOpenCodeDataDir w', ''auth.json'']) = Inr raw
             \<and> JSON_parse w' raw = Some (JObject []))"
  proof
    assume nofile: "fs2 authPath = None"
    have w': "w' = w2\<lparr>fs := fs2(authPath \<mapsto> File ''{}'')\<rparr>"
      using run ok nofile by (simp split: if_splits)
    have dir': "resolveOpenCodeDataDir w' = resolveOpenCodeDataDir w"
      by (rule resolveOpenCodeDataDir_cong) (simp_all add: w' w2_def)
    have p: "JSON_parse w' = JSON_parse w"
      by (simp add: w' w2_def)
    show "fs w' authPath = Some (File ''{}'') \<and>
      (\<exists>raw. readFile w' (path_join [resolveOpenCodeDataDir w', ''auth.json'']) = Inr raw
             \<and> JSON_parse w' raw = Some (JObject []))"
      using parse by (simp add: dir' p readFile_def authPath_def[symmetric]) (simp add: w')
  qed
  show ?thesis
    using kept written unfolding authPath_def by (rule conjI[rotated])
qed

theorem ensureAuth_placeholder_witness:
  "fst (ensureAuth demo_md False demo_fresh) = Inr True \<and>
   \<not> hasOpenCodeCredential demo_fresh ''opencode'' \<and>
   fs (snd (ensureAuth demo_md False demo_fresh)) demo_auth_path = Some (File ''{}'') \<and>
   readFile (snd (ensureAuth demo_md False demo_fresh)) demo_auth_path = Inr ''{}'' \<and>
   JSON_parse (snd (ensureAuth demo_md False demo_fresh)) ''{}'' = Some (JObject [])"
proof -
  define w' where "w' = snd (ensureAuth demo_md False demo_fresh)"
  define fs1 where "fs1 = fs (ensureAuthDirectory (resolveOpenCodeDataDir demo_fresh) demo_fresh)"
  have ok: "ensureAuth demo_md False demo_fresh = (Inr True, w')"
    unfolding w'_def by (simp add: model_defs demo_defs)
  have reach: "False \<or> \<not> hasOpenCodeCredential demo_fresh ''opencode''"
    by (simp add: model_defs demo_defs)
  have tool: "run demo_fresh (loginArgv demo_fresh) (loginEnv demo_fresh) fs1 = Inr (0, fs1)"
    by (simp add: demo_defs)
  have dir: "path_join [resolveOpenCodeDataDir demo_fresh, ''auth.json''] = demo_auth_path"
    by (simp add: model_defs demo_defs)
  have nofile: "fs1 demo_auth_path = None"
    unfolding fs1_def by (simp add: model_defs demo_defs)
  have parse: "JSON_parse demo_fresh ''{}'' = Some (JObject [])"
    by (simp add: demo_defs)
  have r: "readFile w' demo_auth_path = Inr ''{}''"
    "JSON_parse w' ''{}'' = Some (JObject [])"
    unfolding w'_def by (simp_all add: model_defs demo_defs)
  have "fs1 demo_auth_path = None \<longrightarrow> fs w' demo_auth_path = Some (File ''{}'') \<and>
      (\<exists>raw. readFile w' (path_join [resolveOpenCodeDataDir w', ''auth.json'']) = Inr raw
             \<and> JSON_parse w' raw = Some (JObject []))"
    using ensureAuth_placeholder[OF ok reach tool[unfolded fs1_def] parse]
    unfolding dir fs1_def by (rule conjunct1)
  then have "fs w' demo_auth_path = Some (File ''{}'') \<and>
      (\<exists>raw. readFile w' (path_join [resolveOpenCodeDataDir w', ''auth.json'']) = Inr raw
             \<and> JSON_parse w' raw = Some (JObject []))"
    using nofile by (rule mp)
  then have f: "fs w' demo_auth_path = Some (File ''{}'')"
    by (rule conjunct1)
  show ?thesis
    unfolding w'_def[symmetric] using ok reach r f by simp
qed

text \<open>
  C3 as stated fails: a forced run over an existing credential file gets to the
  subprocess step and succeeds, the login child writes nothing, and afterwards the
  credential file is the one from before, which does not parse to the empty object.
\<close>

theorem ensureAuth_keeps_existing_file_counterexample:
  "fst (ensureAuth demo_md True demo_world) = Inr True \<and>
   spawned (snd (ensureAuth demo_md True demo_world)) = [[''/usr/bin/opencode'', ''auth'', ''login'']] \<and>
   run demo_world (loginArgv demo_world) (loginEnv demo_world)
       (fs (ensureAuthDirectory (resolveOpenCodeDataDir demo_world) demo_world))
     = Inr (0, fs (ensureAuthDirectory (resolveOpenCodeDataDir demo_world) demo_world)) \<and>
   path_join [resolveOpenCodeDataDir (snd (ensureAuth demo_md True demo_world)), ''auth.json'']
     = demo_auth_path \<and>
   readFile (snd (ensureAuth demo_md True demo_world)) demo_auth_path = Inr credential_text \<and>
   JSON_parse (snd (ensureAuth demo_md True demo_world)) credential_text
     = Some (JObject [(''opencode'', JObject [])])"
  by (simp add: model_defs demo_defs)

text \<open>
  C4. \<open>ensureAuth\<close> fails with the error \<open>"<name> CLI is not installed."\<close> exactly when it
  got past the short cut and either the binary is absent at the check or the launch of
  the child fails as command-not-found (the binary vanished after the check): both cases
  throw the same value, and no other failure of \<open>ensureAuth\<close> is that value. When the
  binary is absent at the check, nothing is spawned and the "not installed" notice is
  printed.
\<close>

theorem ensureAuth_EngineNotInstalled:
  "(fst (ensureAuth md forceLogin w) = Inl (notInstalledError md) \<longleftrightarrow>
      (forceLogin \<or> \<not> hasOpenCodeCredential w ''opencode'') \<and>
      (which w (cliBinary md) = None \<or>
       run w (loginArgv w) (loginEnv w)
         (fs (ensureAuthDirectory (resolveOpenCodeDataDir w) w)) = Inl CommandNotFound))
   \<and> ((forceLogin \<or> \<not> hasOpenCodeCredential w ''opencode'') \<and> which w (cliBinary md) = None
        \<longrightarrow> spawned (snd (ensureAuth md forceLogin w)) = spawned w
            \<and> console (snd (ensureAuth md forceLogin w)) = console w @ [NotInstalledNotice (name md)])"
proof (cases "forceLogin \<or> \<not> hasOpenCodeCredential w ''opencode''")
  case False
  then show ?thesis by (simp add: ensureAuth_short)
next
  case reach: True
  show ?thesis
  proof (cases "which w (cliBinary md)")
    case None
    with reach show ?thesis
      by (auto simp add: ensureAuth_absent displayCliNotInstalledError_def print_def)
  next
    case (Some resolved)
    then have inst: "which w (cliBinary md) \<noteq> None" by simp
    show ?thesis
    proof (cases "run w (loginArgv w) (loginEnv w)
                    (fs (ensureAuthDirectory (resolveOpenCodeDataDir w) w))")
      case (Inl f)
      from ensureAuth_launch_failed[OF reach inst refl Inl] reach inst Inl
      show ?thesis by auto
    next
      case (Inr r)
      obtain status fs2 where r: "r = (status, fs2)" by (cases r)
      from ensureAuth_exited[OF reach inst refl Inr[unfolded r] refl refl] reach inst Inr
      show ?thesis by auto
    qed
  qed
qed

theorem ensureAuth_EngineNotInstalled_witness:
  "which demo_absent (cliBinary demo_md) = None \<and>
   fst (ensureAuth demo_md True demo_absent) = Inl (Error ''OpenCode CLI is not installed.'') \<and>
   spawned (snd (ensureAuth demo_md True demo_absent)) = [] \<and>
   console (snd (ensureAuth demo_md True demo_absent)) = [NotInstalledNotice ''OpenCode''] \<and>
   which demo_vanished (cliBinary demo_md) = Some ''/usr/bin/opencode'' \<and>
   \<not> hasOpenCodeCredential demo_vanished ''opencode'' \<and>
   fst (ensureAuth demo_md False demo_vanished) = Inl (Error ''OpenCode CLI is not installed.'')"
proof -
  have a: "which demo_absent (cliBinary demo_md) = None"
    "spawned demo_absent = []" "console demo_absent = []"
    by (simp_all add: demo_defs)
  have v: "which demo_vanished (cliBinary demo_md) = Some ''/usr/bin/opencode''"
    "\<not> hasOpenCodeCredential demo_vanished ''opencode''"
    "run demo_vanished (loginArgv demo_vanished) (loginEnv demo_vanished)
       (fs (ensureAuthDirectory (resolveOpenCodeDataDir demo_vanished) demo_vanished))
     = Inl CommandNotFound"
    by (simp_all add: model_defs demo_vanished_def demo_defs)
  have n: "notInstalledError demo_md = Error ''OpenCode CLI is not installed.''"
    "name demo_md = ''OpenCode''"
    by (simp_all add: notInstalledError_def demo_defs)
  show ?thesis
    using ensureAuth_EngineNotInstalled[of demo_md True demo_absent]
      ensureAuth_EngineNotInstalled[of demo_md False demo_vanished] a v n
    by simp
qed

text \<open>
  C10. When \<open>ensureAuth\<close> gets past the short cut and the binary is absent, it throws the
  "not installed" error in a world whose file tree already holds the data directory: the
  directory is ensured before the check, so the error path changes the file system (and
  nothing but the directory and its parents).
\<close>

theorem ensureAuth_not_installed_after_mkdir:
  assumes "forceLogin \<or> \<not> hasOpenCodeCredential w ''opencode''"
    and "which w (cliBinary md) = None"
  shows "fst (ensureAuth md forceLogin w) = Inl (notInstalledError md) \<and>
         fs (snd (ensureAuth md forceLogin w)) (resolveOpenCodeDataDir w) = Some Dir \<and>
         (\<forall>p. fs (snd (ensureAuth md forceLogin w)) p =
                 (if is_under p (resolveOpenCodeDataDir w) then Some Dir else fs w p))"
  using assms
  by (simp add: ensureAuth_absent displayCliNotInstalledError_def print_def
      ensureAuthDirectory_def is_under_def)

theorem ensureAuth_not_installed_after_mkdir_witness:
  "\<not> hasOpenCodeCredential demo_bare ''opencode'' \<and>
   which demo_bare (cliBinary demo_md) = None \<and>
   fs demo_bare ''/home/u/.local/share/opencode'' = None \<and>
   fst (ensureAuth demo_md False demo_bare) = Inl (Error ''OpenCode CLI is not installed.'') \<and>
   fs (snd (ensureAuth demo_md False demo_bare)) ''/home/u/.local/share/opencode'' = Some Dir"
proof -
  have h: "False \<or> \<not> hasOpenCodeCredential demo_bare ''opencode''"
    "which demo_bare (cliBinary demo_md) = None"
    by (simp_all add: model_defs demo_bare_def demo_defs)
  have d: "resolveOpenCodeDataDir demo_bare = ''/home/u/.local/share/opencode''"
    "fs demo_bare ''/home/u/.local/share/opencode'' = None"
    "notInstalledError demo_md = Error ''OpenCode CLI is not installed.''"
    by (simp_all add: model_defs demo_bare_def demo_defs)
  from ensureAuth_not_installed_after_mkdir[OF h] h d
  show ?thesis by (simp add: is_under_def)
qed

subsection \<open>The menu action\<close>

text \<open>
  C2. \<open>nextAuthMenuAction\<close> returns \<open>login\<close> whenever the binary is absent; it returns
  \<open>logout\<close> exactly when the binary is present and the probe reports a credential; with
  the binary present and no credential it returns \<open>login\<close>.
\<close>

theorem nextAuthMenuAction_states:
  "(which w (cliBinary md) = None \<longrightarrow> nextAuthMenuAction md w = Login) \<and>
   (nextAuthMenuAction md w = Logout \<longleftrightarrow>
      which w (cliBinary md) \<noteq> None \<and> hasOpenCodeCredential w ''opencode'') \<and>
   (which w (cliBinary md) \<noteq> None \<and> \<not> hasOpenCodeCredential w ''opencode''
      \<longrightarrow> nextAuthMenuAction md w = Login)"
  by (simp add: nextAuthMenuAction_def isAuthenticated_def isCliInstalled_def)

theorem nextAuthMenuAction_states_witness:
  "which demo_absent (cliBinary demo_md) = None \<and>
   nextAuthMenuAction demo_md demo_absent = Login \<and>
   which demo_fresh (cliBinary demo_md) \<noteq> None \<and>
   \<not> hasOpenCodeCredential demo_fresh ''opencode'' \<and>
   nextAuthMenuAction demo_md demo_fresh = Login \<and>
   hasOpenCodeCredential demo_world ''opencode'' \<and>
   nextAuthMenuAction demo_md demo_world = Logout"
proof -
  have a: "which demo_absent (cliBinary demo_md) = None"
    by (simp add: demo_defs)
  have f: "which demo_fresh (cliBinary demo_md) \<noteq> None"
    "\<not> hasOpenCodeCredential demo_fresh ''opencode''"
    by (simp_all add: model_defs demo_defs)
  have c: "which demo_world (cliBinary demo_md) \<noteq> None"
    "hasOpenCodeCredential demo_world ''opencode''"
    by (simp_all add: model_defs demo_defs)
  show ?thesis
    using nextAuthMenuAction_states[of demo_absent demo_md]
      nextAuthMenuAction_states[of demo_fresh demo_md]
      nextAuthMenuAction_states[of demo_world demo_md] a f c
    by simp
qed


subsection \<open>Logout\<close>

lemma rm_frame [simp]:
  "env (snd (rm t w)) = env w"
  "homedir (snd (rm t w)) = homedir w"
  "cwd (snd (rm t w)) = cwd w"
  "expandHomeDir (snd (rm t w)) = expandHomeDir w"
  "JSON_parse (snd (rm t w)) = JSON_parse w"
  "rm_outcome (snd (rm t w)) = rm_outcome w"
  "rm_calls (snd (rm t w)) = rm_calls w @ [t]"
  by (simp_all add: rm_def Let_def split: rm_result.splits)



lemma removeAll_targets_step:
  "removeAll_targets (t # ts) w = removeAll_targets ts (snd (rm t w))"
  by (simp split: prod.splits sum.splits)

lemma removeAll_targets_frame [simp]:
  "env (removeAll_targets ts w) = env w"
  "homedir (removeAll_targets ts w) = homedir w"
  "cwd (removeAll_targets ts w) = cwd w"
  "expandHomeDir (removeAll_targets ts w) = expandHomeDir w"
  "JSON_parse (removeAll_targets ts w) = JSON_parse w"
  "rm_outcome (removeAll_targets ts w) = rm_outcome w"
  by (induction ts arbitrary: w; simp add: removeAll_targets_step del: removeAll_targets.simps(2))+












subsection \<open>The home-directory check\<close>

text \<open>
  C7. The check ends the process, with exit status 1 and after printing the guidance,
  exactly when \<open>realpathSync\<close> succeeds on both the target directory and the home directory
  and gives the same path. In every other case, and in particular when \<open>realpathSync\<close>
  fails on either path, the boot continues in an unchanged world.
\<close>

theorem homeDirectoryCheck_trips_iff:
  "(fst (homeDirectoryCheck args w) = Exited 1 \<longleftrightarrow>
      (\<exists>p. realpath w (targetCwd args w) = Some p \<and> realpath w (homedir w) = Some p)) \<and>
   (fst (homeDirectoryCheck args w) \<noteq> Exited 1 \<longrightarrow> homeDirectoryCheck args w = (Continue, w)) \<and>
   (realpath w (targetCwd args w) = None \<or> realpath w (homedir w) = None \<longrightarrow>
      homeDirectoryCheck args w = (Continue, w)) \<and>
   (fst (homeDirectoryCheck args w) = Exited 1 \<longrightarrow>
      console (snd (homeDirectoryCheck args w)) = console w @ [HomeDirectoryNotice])"
  by (auto simp add: homeDirectoryCheck_def Let_def print_def split: option.splits)

theorem homeDirectoryCheck_trips_iff_witness:
  "targetCwd [''-d'', ''/work/link''] demo_links = ''/work/link'' \<and>
   realpath demo_links ''/work/link'' = Some ''/home/u'' \<and>
   realpath demo_links (homedir demo_links) = Some ''/home/u'' \<and>
   fst (homeDirectoryCheck [''-d'', ''/work/link''] demo_links) = Exited 1 \<and>
   console (snd (homeDirectoryCheck [''-d'', ''/work/link''] demo_links)) = [HomeDirectoryNotice] \<and>
   targetCwd [] demo_links = ''/work/project'' \<and>
   realpath demo_links ''/work/project'' = None \<and>
   homeDirectoryCheck [] demo_links = (Continue, demo_links)"
proof -
  have t: "targetCwd [''-d'', ''/work/link''] demo_links = ''/work/link''"
    "targetCwd [] demo_links = ''/work/project''"
    by (simp_all add: targetCwd_def explicitDir_def earlyCwd_def demo_links_def demo_defs)
  have r: "realpath demo_links ''/work/link'' = Some ''/home/u''"
    "realpath demo_links (homedir demo_links) = Some ''/home/u''"
    "realpath demo_links ''/work/project'' = None"
    "console demo_links = []"
    by (simp_all add: demo_links_def demo_defs)
  note T1 = homeDirectoryCheck_trips_iff[of "[''-d'', ''/work/link'']" demo_links]
  note T2 = homeDirectoryCheck_trips_iff[of "[]" demo_links]
  have iff1: "fst (homeDirectoryCheck [''-d'', ''/work/link''] demo_links) = Exited 1 \<longleftrightarrow>
      (\<exists>p. realpath demo_links (targetCwd [''-d'', ''/work/link''] demo_links) = Some p
         \<and> realpath demo_links (homedir demo_links) = Some p)"
    using T1 by (elim conjE)
  have "\<exists>p. realpath demo_links (targetCwd [''-d'', ''/work/link''] demo_links) = Some p
         \<and> realpath demo_links (homedir demo_links) = Some p"
    using r by (intro exI[of _ "''/home/u''"]) (simp add: t)
  with iff1 have e1: "fst (homeDirectoryCheck [''-d'', ''/work/link''] demo_links) = Exited 1"
    by (rule iffD2)
  have "fst (homeDirectoryCheck [''-d'', ''/work/link''] demo_links) = Exited 1 \<longrightarrow>
      console (snd (homeDirectoryCheck [''-d'', ''/work/link''] demo_links))
        = console demo_links @ [HomeDirectoryNotice]"
    using T1 by (elim conjE)
  then have "console (snd (homeDirectoryCheck [''-d'', ''/work/link''] demo_links))
        = console demo_links @ [HomeDirectoryNotice]"
    using e1 by (rule mp)
  then have c1: "console (snd (homeDirectoryCheck [''-d'', ''/work/link''] demo_links))
        = [HomeDirectoryNotice]"
    by (simp add: r)
  have "realpath demo_links (targetCwd [] demo_links) = None
          \<or> realpath demo_links (homedir demo_links) = None \<longrightarrow>
      homeDirectoryCheck [] demo_links = (Continue, demo_links)"
    using T2 by (elim conjE)
  moreover have "realpath demo_links (targetCwd [] demo_links) = None
          \<or> realpath demo_links (homedir demo_links) = None"
    by (simp add: t r)
  ultimately have c2: "homeDirectoryCheck [] demo_links = (Continue, demo_links)"
    by (rule mp)
  show ?thesis
    using t r(1,2,3) e1 c1 c2 by (intro conjI)
qed

subsection \<open>Background initialization\<close>

lemmas init_defs = initializeInBackground_def bootstrapWorkspace_def registry_of_def
  resolveWorkspaceRoot_def existsSync_def path_eval WORKSPACE_DIRNAME_def
  LEGACY_WORKSPACE_DIRNAME_def Let_def

text \<open>
  A run of the loop: \<open>gs\<close> are the files before the first call and after each call that
  returned, \<open>n\<close> the number of calls that returned.
\<close>

lemma syncEngines_run:
  "ss = List.map_filter (\<lambda>e. map_option (Pair (engine_id (engine_metadata e))) (syncConfig e)) es \<Longrightarrow>
   \<exists>n gs. n \<le> length ss \<and> length gs = Suc n \<and> gs ! 0 = fs w \<and>
     (\<forall>k<n. snd (ss ! k) (gs ! k) = Inr (gs ! Suc k)) \<and>
     (if n = length ss then
        syncEngines es w =
          (Inr (), w\<lparr>fs := gs ! n, init_log := init_log w @ map (\<lambda>s. Synced (fst s)) ss\<rparr>)
      else \<exists>err. snd (ss ! n) (gs ! n) = Inl err \<and>
        syncEngines es w =
          (Inl err, w\<lparr>fs := gs ! n,
                      init_log := init_log w @ map (\<lambda>s. Synced (fst s)) (take (Suc n) ss)\<rparr>))"
proof (induction es arbitrary: ss w)
  case Nil
  then have "ss = []" by simp
  then show ?case
    by (intro exI[of _ 0] exI[of _ "[fs w]"]) simp
next
  case (Cons e es)
  show ?case
  proof (cases "syncConfig e")
    case None
    then have "ss = List.map_filter (\<lambda>e. map_option (Pair (engine_id (engine_metadata e))) (syncConfig e)) es"
      using Cons.prems by simp
    from Cons.IH[OF this, of w] None show ?thesis by (simp split del: if_split cong: if_cong)
  next
    case (Some sync)
    define i where "i = engine_id (engine_metadata e)"
    define ss' where "ss' = List.map_filter (\<lambda>e. map_option (Pair (engine_id (engine_metadata e))) (syncConfig e)) es"
    have ss: "ss = (i, sync) # ss'"
      using Cons.prems Some by (simp add: ss'_def i_def)
    define w' where "w' = w\<lparr>init_log := init_log w @ [Synced i]\<rparr>"
    show ?thesis
    proof (cases "sync (fs w)")
      case (Inl err)
      then have "syncEngines (e # es) w = (Inl err, w')"
        using Some by (simp add: w'_def i_def)
      with Inl show ?thesis
        by (intro exI[of _ 0] exI[of _ "[fs w]"]) (simp add: ss w'_def)
    next
      case (Inr g)
      then have step: "syncEngines (e # es) w = syncEngines es (w'\<lparr>fs := g\<rparr>)"
        using Some by (simp add: w'_def i_def)
      from Cons.IH[OF ss'_def, of "w'\<lparr>fs := g\<rparr>"] obtain n gs where
        n: "n \<le> length ss'" "length gs = Suc n" "gs ! 0 = g"
          "\<forall>k<n. snd (ss' ! k) (gs ! k) = Inr (gs ! Suc k)"
        and r: "if n = length ss' then
            syncEngines es (w'\<lparr>fs := g\<rparr>) =
              (Inr (), w'\<lparr>fs := g\<rparr>\<lparr>fs := gs ! n,
                 init_log := init_log (w'\<lparr>fs := g\<rparr>) @ map (\<lambda>s. Synced (fst s)) ss'\<rparr>)
          else \<exists>err. snd (ss' ! n) (gs ! n) = Inl err \<and>
            syncEngines es (w'\<lparr>fs := g\<rparr>) =
              (Inl err, w'\<lparr>fs := g\<rparr>\<lparr>fs := gs ! n,
                 init_log := init_log (w'\<lparr>fs := g\<rparr>) @ map (\<lambda>s. Synced (fst s)) (take (Suc n) ss')\<rparr>)"
        by (elim exE conjE) (rule that, simp_all)
      have calls: "\<forall>k<Suc n. snd (ss ! k) ((fs w # gs) ! k) = Inr ((fs w # gs) ! Suc k)"
      proof (intro allI impI)
        fix k assume "k < Suc n"
        show "snd (ss ! k) ((fs w # gs) ! k) = Inr ((fs w # gs) ! Suc k)"
        proof (cases k)
          case 0
          then show ?thesis using Inr n(3) by (simp add: ss)
        next
          case (Suc j)
          with \<open>k < Suc n\<close> have "j < n" by simp
          with n(4) Suc show ?thesis by (simp add: ss)
        qed
      qed
      show ?thesis
        unfolding step
        apply (rule exI[of _ "Suc n"], rule exI[of _ "fs w # gs"])
        apply (intro conjI)
            apply (simp add: ss n)
           apply (simp add: n)
          apply simp
         apply (rule calls)
        using r apply (simp add: ss w'_def split: if_splits)
        done
    qed
  qed
qed

text \<open>
  C8, as amended. The initializer calls the first-run bootstrap if and only if the
  resolved workspace root does not exist. If the bootstrap throws, the initializer ends
  with that error and calls no \<open>syncConfig\<close>. Otherwise it calls the \<open>syncConfig\<close> of the
  registered engines that expose it one after the other in registration order, each on the
  files that the one before it left, up to and including the first one that throws, and
  ends with the error of that one; if none throws it has called every one of them and
  completes.
\<close>

theorem initializeInBackground_calls:
  "let ss = List.map_filter (\<lambda>e. map_option (Pair (engine_id (engine_metadata e))) (syncConfig e))
              (registry_getAll reg);
       first_run = \<not> existsSync w (resolveWorkspaceRoot w dir);
       boot = (if first_run then [Bootstrapped dir] else [])
   in case (if first_run then ensureWorkspaceStructure w dir (fs w) else Inr (fs w)) of
        Inl err \<Rightarrow>
          initializeInBackground reg dir w = (Inl err, w\<lparr>init_log := init_log w @ boot\<rparr>)
      | Inr f0 \<Rightarrow>
          (\<exists>n gs. n \<le> length ss \<and> length gs = Suc n \<and> gs ! 0 = f0 \<and>
             (\<forall>k<n. snd (ss ! k) (gs ! k) = Inr (gs ! Suc k)) \<and>
             (if n = length ss then
                initializeInBackground reg dir w =
                  (Inr (), w\<lparr>fs := gs ! n,
                             init_log := init_log w @ boot @ map (\<lambda>s. Synced (fst s)) ss\<rparr>)
              else \<exists>err. snd (ss ! n) (gs ! n) = Inl err \<and>
                initializeInBackground reg dir w =
                  (Inl err, w\<lparr>fs := gs ! n,
                              init_log := init_log w @ boot
                                @ map (\<lambda>s. Synced (fst s)) (take (Suc n) ss)\<rparr>)))"
proof -
  define ss where "ss = List.map_filter (\<lambda>e. map_option (Pair (engine_id (engine_metadata e))) (syncConfig e))
              (registry_getAll reg)"
  show ?thesis
  proof (cases "existsSync w (resolveWorkspaceRoot w dir)")
    case True
    then have "initializeInBackground reg dir w = syncEngines (registry_getAll reg) w"
      by (simp add: initializeInBackground_def)
    with True syncEngines_run[OF ss_def, of w] show ?thesis
      by (simp add: ss_def[symmetric] Let_def split del: if_split cong: if_cong)
  next
    case False
    define w' where "w' = w\<lparr>init_log := init_log w @ [Bootstrapped dir]\<rparr>"
    show ?thesis
    proof (cases "ensureWorkspaceStructure w dir (fs w)")
      case (Inl err)
      then have "initializeInBackground reg dir w = (Inl err, w')"
        using False by (simp add: initializeInBackground_def bootstrapWorkspace_def w'_def)
      with False Inl show ?thesis by (simp add: w'_def Let_def)
    next
      case (Inr f0)
      then have "initializeInBackground reg dir w = syncEngines (registry_getAll reg) (w'\<lparr>fs := f0\<rparr>)"
        using False by (simp add: initializeInBackground_def bootstrapWorkspace_def w'_def)
      with False Inr syncEngines_run[OF ss_def, of "w'\<lparr>fs := f0\<rparr>"] show ?thesis
        by (simp add: ss_def[symmetric] w'_def Let_def split del: if_split cong: if_cong)
    qed
  qed
qed


text \<open>
  The theorem on a first run, where the \<open>syncConfig\<close> of \<open>b\<close> finds the file that the one of
  \<open>a\<close> wrote; on the run after it, which finds the workspace root and does not bootstrap
  again; and on the machine whose bootstrap throws, where no \<open>syncConfig\<close> is called.
\<close>

theorem initializeInBackground_calls_witness:
  "\<not> existsSync demo_world (resolveWorkspaceRoot demo_world ''/work/project'') \<and>
   fst (initializeInBackground demo_registry ''/work/project'' demo_world) = Inr () \<and>
   init_log (snd (initializeInBackground demo_registry ''/work/project'' demo_world)) =
     [Bootstrapped ''/work/project'', Synced ''a'', Synced ''b''] \<and>
   fs (snd (initializeInBackground demo_registry ''/work/project'' demo_world)) ''/home/u/.b'' =
     Some (File ''a'') \<and>
   existsSync (snd (initializeInBackground demo_registry ''/work/project'' demo_world))
     (resolveWorkspaceRoot (snd (initializeInBackground demo_registry ''/work/project'' demo_world))
        ''/work/project'') \<and>
   init_log (snd (initializeInBackground demo_registry ''/work/project''
       (snd (initializeInBackground demo_registry ''/work/project'' demo_world)))) =
     [Bootstrapped ''/work/project'', Synced ''a'', Synced ''b'', Synced ''a'', Synced ''b''] \<and>
   initializeInBackground demo_registry ''/work/project'' demo_readonly =
     (Inl (SystemError ''EROFS'' ''/work/project''),
      demo_readonly\<lparr>init_log := [Bootstrapped ''/work/project'']\<rparr>)"
proof -
  let ?dir = "''/work/project''"
  let ?sa = "\<lambda>f::files. (Inr (f(''/home/u/.a'' \<mapsto> File ''a'')) :: thrown + files)"
  let ?sb = "\<lambda>f::files. (Inr (f(''/home/u/.b'' := f ''/home/u/.a'')) :: thrown + files)"
  let ?ss = "[(''a'', ?sa), (''b'', ?sb)]"
  have ss: "List.map_filter (\<lambda>e. map_option (Pair (engine_id (engine_metadata e))) (syncConfig e))
              (registry_getAll demo_registry) = ?ss"
    by (simp add: registry_of_def demo_registry_def demo_engine_def opencodeEngine_def demo_defs)
  have run: "initializeInBackground demo_registry ?dir w =
      (Inr (), w\<lparr>fs := (f0(''/home/u/.a'' \<mapsto> File ''a''))(''/home/u/.b'' \<mapsto> File ''a''),
                 init_log := init_log w
                   @ (if \<not> existsSync w (resolveWorkspaceRoot w ?dir) then [Bootstrapped ?dir] else [])
                   @ [Synced ''a'', Synced ''b'']\<rparr>)"
    if start: "(if \<not> existsSync w (resolveWorkspaceRoot w ?dir)
                then ensureWorkspaceStructure w ?dir (fs w) else Inr (fs w)) = Inr f0"
    for w f0
  proof -
    let ?r = "initializeInBackground demo_registry ?dir w"
    let ?boot = "if \<not> existsSync w (resolveWorkspaceRoot w ?dir) then [Bootstrapped ?dir] else []"
    have "\<exists>n gs. n \<le> length ?ss \<and> length gs = Suc n \<and> gs ! 0 = f0 \<and>
             (\<forall>k<n. snd (?ss ! k) (gs ! k) = Inr (gs ! Suc k)) \<and>
             (if n = length ?ss then
                ?r = (Inr (), w\<lparr>fs := gs ! n,
                             init_log := init_log w @ ?boot @ map (\<lambda>s. Synced (fst s)) ?ss\<rparr>)
              else \<exists>err. snd (?ss ! n) (gs ! n) = Inl err \<and>
                ?r = (Inl err, w\<lparr>fs := gs ! n,
                              init_log := init_log w @ ?boot
                                @ map (\<lambda>s. Synced (fst s)) (take (Suc n) ?ss)\<rparr>))"
      using initializeInBackground_calls[where reg = demo_registry and w = w and dir = ?dir]
      unfolding Let_def ss start sum.case .
    then obtain n gs where n: "n \<le> length ?ss" and g0: "gs ! 0 = f0"
      and calls: "\<forall>k<n. snd (?ss ! k) (gs ! k) = Inr (gs ! Suc k)"
      and res: "if n = length ?ss then
                ?r = (Inr (), w\<lparr>fs := gs ! n,
                             init_log := init_log w @ ?boot @ map (\<lambda>s. Synced (fst s)) ?ss\<rparr>)
              else \<exists>err. snd (?ss ! n) (gs ! n) = Inl err \<and>
                ?r = (Inl err, w\<lparr>fs := gs ! n,
                              init_log := init_log w @ ?boot
                                @ map (\<lambda>s. Synced (fst s)) (take (Suc n) ?ss)\<rparr>)"
      by (elim exE conjE) (rule that)
    have "n \<noteq> 0"
    proof
      assume "n = 0"
      with res show False by simp
    qed
    moreover have "n \<noteq> 1"
    proof
      assume "n = 1"
      with res show False by simp
    qed
    ultimately have n2: "n = 2"
      using n by simp
    from calls have "0 < n \<longrightarrow> snd (?ss ! 0) (gs ! 0) = Inr (gs ! Suc 0)"
      by (rule spec)
    then have g1: "gs ! Suc 0 = f0(''/home/u/.a'' \<mapsto> File ''a'')"
      by (simp add: n2 g0)
    from calls have "1 < n \<longrightarrow> snd (?ss ! 1) (gs ! 1) = Inr (gs ! Suc 1)"
      by (rule spec)
    then have g2: "gs ! Suc (Suc 0) = (f0(''/home/u/.a'' \<mapsto> File ''a''))(''/home/u/.b'' \<mapsto> File ''a'')"
      by (simp add: n2 g1 eval_nat_numeral)
    from res show ?thesis
      by (simp add: n2 g2 eval_nat_numeral)
  qed
  have absent: "\<not> existsSync demo_world (resolveWorkspaceRoot demo_world ?dir)"
    by (simp add: init_defs demo_defs)
  define f0 where "f0 = (fs demo_world)(''/work/project/.clawtutor'' \<mapsto> Dir)"
  have boot: "ensureWorkspaceStructure demo_world ?dir (fs demo_world) = Inr f0"
    by (simp add: f0_def init_defs demo_defs)
  define w1 where "w1 = demo_world\<lparr>fs := (f0(''/home/u/.a'' \<mapsto> File ''a''))(''/home/u/.b'' \<mapsto> File ''a''),
      init_log := [Bootstrapped ?dir, Synced ''a'', Synced ''b'']\<rparr>"
  have first: "initializeInBackground demo_registry ?dir demo_world = (Inr (), w1)"
    using run[of demo_world f0] absent boot by (simp add: w1_def demo_defs)
  have present: "existsSync w1 (resolveWorkspaceRoot w1 ?dir)"
    by (simp add: w1_def f0_def init_defs)
  have second: "init_log (snd (initializeInBackground demo_registry ?dir w1)) =
      [Bootstrapped ?dir, Synced ''a'', Synced ''b'', Synced ''a'', Synced ''b'']"
    using run[of w1 "fs w1"] present by (simp add: w1_def)
  have absent': "\<not> existsSync demo_readonly (resolveWorkspaceRoot demo_readonly ?dir)"
    by (simp add: demo_readonly_def init_defs demo_defs)
  have fail: "ensureWorkspaceStructure demo_readonly ?dir (fs demo_readonly) =
      Inl (SystemError ''EROFS'' ?dir)" "init_log demo_readonly = []"
    by (simp_all add: demo_readonly_def demo_defs)
  have third: "initializeInBackground demo_registry ?dir demo_readonly =
     (Inl (SystemError ''EROFS'' ?dir), demo_readonly\<lparr>init_log := [Bootstrapped ?dir]\<rparr>)"
    using initializeInBackground_calls[where reg = demo_registry and w = demo_readonly and dir = ?dir]
    unfolding Let_def by (simp add: absent' fail)
  show ?thesis
    using absent present second third unfolding first by (simp add: w1_def)
qed

text \<open>
  C8 as stated fails: when the \<open>syncConfig\<close> of an engine throws, the loop ends there and
  the \<open>syncConfig\<close> of the engines after it is never called.
\<close>

theorem initializeInBackground_failing_sync_counterexample:
  "map (\<lambda>e. engine_id (engine_metadata e))
     (filter (\<lambda>e. syncConfig e \<noteq> None) (registry_getAll demo_registry_failing)) = [''a'', ''b''] \<and>
   fst (initializeInBackground demo_registry_failing ''/work/project'' demo_world)
     = Inl (Error ''sync failed'') \<and>
   init_log (snd (initializeInBackground demo_registry_failing ''/work/project'' demo_world))
     = [Bootstrapped ''/work/project'', Synced ''a'']"
  by (simp add: init_defs demo_registry_failing_def demo_engine_def opencodeEngine_def demo_defs)

subsection \<open>Unknown providers\<close>

text \<open>
  C9, as amended. For an id for which the registry lookup returns absence, \<open>handleLogin\<close>
  and \<open>handleLogout\<close> throw the error \<open>"Unknown provider: <id>"\<close> and print nothing, and
  the \<open>auth login\<close> and \<open>auth logout\<close> actions pass the error on to their caller. When
  the selection is cancelled or empty, the actions print \<open>"No provider selected."\<close> and
  return normally.
\<close>

theorem unknown_provider_throws:
  "(registry_get reg providerId = None \<longrightarrow>
      handleLogin reg providerId w = (Inl (Error (''Unknown provider: '' @ providerId)), w) \<and>
      handleLogout reg providerId w = (Inl (Error (''Unknown provider: '' @ providerId)), w)) \<and>
   (truthy_string (selectAuthProvider reg w) = Some providerId \<and>
    registry_get reg providerId = None \<longrightarrow>
      authLoginAction reg w = (Inl (Error (''Unknown provider: '' @ providerId)), w) \<and>
      authLogoutAction reg w = (Inl (Error (''Unknown provider: '' @ providerId)), w)) \<and>
   (truthy_string (selectAuthProvider reg w) = None \<longrightarrow>
      authLoginAction reg w = (Inr (), w\<lparr>console := console w @ [Log ''No provider selected.'']\<rparr>) \<and>
      authLogoutAction reg w = (Inr (), w\<lparr>console := console w @ [Log ''No provider selected.'']\<rparr>))"
proof (intro conjI)
  show "registry_get reg providerId = None \<longrightarrow>
      handleLogin reg providerId w = (Inl (Error (''Unknown provider: '' @ providerId)), w) \<and>
      handleLogout reg providerId w = (Inl (Error (''Unknown provider: '' @ providerId)), w)"
    by (simp add: handleLogin_def handleLogout_def)
  show "truthy_string (selectAuthProvider reg w) = Some providerId \<and>
    registry_get reg providerId = None \<longrightarrow>
      authLoginAction reg w = (Inl (Error (''Unknown provider: '' @ providerId)), w) \<and>
      authLogoutAction reg w = (Inl (Error (''Unknown provider: '' @ providerId)), w)"
    by (simp add: authLoginAction_def authLogoutAction_def handleLogin_def handleLogout_def)
  show "truthy_string (selectAuthProvider reg w) = None \<longrightarrow>
      authLoginAction reg w = (Inr (), w\<lparr>console := console w @ [Log ''No provider selected.'']\<rparr>) \<and>
      authLogoutAction reg w = (Inr (), w\<lparr>console := console w @ [Log ''No provider selected.'']\<rparr>)"
    by (simp add: authLoginAction_def authLogoutAction_def print_def)
qed

theorem unknown_provider_throws_witness:
  "registry_get demo_registry ''ghost'' = None \<and>
   handleLogin demo_registry ''ghost'' demo_world
     = (Inl (Error ''Unknown provider: ghost''), demo_world) \<and>
   handleLogout demo_registry ''ghost'' demo_world
     = (Inl (Error ''Unknown provider: ghost''), demo_world) \<and>
   truthy_string (selectAuthProvider demo_registry demo_ghost) = Some ''ghost'' \<and>
   authLogoutAction demo_registry demo_ghost
     = (Inl (Error ''Unknown provider: ghost''), demo_ghost) \<and>
   truthy_string (selectAuthProvider demo_registry demo_world) = None \<and>
   fst (authLoginAction demo_registry demo_world) = Inr () \<and>
   console (snd (authLoginAction demo_registry demo_world)) = [Log ''No provider selected.'']"
proof -
  note T = unknown_provider_throws[of demo_registry "''ghost''" demo_world]
  note G = unknown_provider_throws[of demo_registry "''ghost''" demo_ghost]
  have g: "registry_get demo_registry ''ghost'' = None"
    by (simp add: registry_of_def demo_registry_def demo_engine_def opencodeEngine_def demo_defs)
  have n: "truthy_string (selectAuthProvider demo_registry demo_world) = None"
    by (simp add: selectAuthProvider_def demo_defs)
  have m: "truthy_string (selectAuthProvider demo_registry demo_ghost) = Some ''ghost''"
    by (simp add: selectAuthProvider_def demo_ghost_def demo_defs)
  have "registry_get demo_registry ''ghost'' = None \<longrightarrow>
      handleLogin demo_registry ''ghost'' demo_world
        = (Inl (Error (''Unknown provider: '' @ ''ghost'')), demo_world) \<and>
      handleLogout demo_registry ''ghost'' demo_world
        = (Inl (Error (''Unknown provider: '' @ ''ghost'')), demo_world)"
    using T by (elim conjE)
  then have h: "handleLogin demo_registry ''ghost'' demo_world
        = (Inl (Error (''Unknown provider: '' @ ''ghost'')), demo_world) \<and>
      handleLogout demo_registry ''ghost'' demo_world
        = (Inl (Error (''Unknown provider: '' @ ''ghost'')), demo_world)"
    using g by (rule mp)
  have "truthy_string (selectAuthProvider demo_registry demo_ghost) = Some ''ghost'' \<and>
    registry_get demo_registry ''ghost'' = None \<longrightarrow>
      authLoginAction demo_registry demo_ghost
        = (Inl (Error (''Unknown provider: '' @ ''ghost'')), demo_ghost) \<and>
      authLogoutAction demo_registry demo_ghost
        = (Inl (Error (''Unknown provider: '' @ ''ghost'')), demo_ghost)"
    using G by (elim conjE)
  then have k: "authLoginAction demo_registry demo_ghost
        = (Inl (Error (''Unknown provider: '' @ ''ghost'')), demo_ghost) \<and>
      authLogoutAction demo_registry demo_ghost
        = (Inl (Error (''Unknown provider: '' @ ''ghost'')), demo_ghost)"
    using conjI[OF m g] by (rule mp)
  have "truthy_string (selectAuthProvider demo_registry demo_world) = None \<longrightarrow>
      authLoginAction demo_registry demo_world
        = (Inr (), demo_world\<lparr>console := console demo_world @ [Log ''No provider selected.'']\<rparr>) \<and>
      authLogoutAction demo_registry demo_world
        = (Inr (), demo_world\<lparr>console := console demo_world @ [Log ''No provider selected.'']\<rparr>)"
    using T by (elim conjE)
  then have a: "authLoginAction demo_registry demo_world
        = (Inr (), demo_world\<lparr>console := console demo_world @ [Log ''No provider selected.'']\<rparr>) \<and>
      authLogoutAction demo_registry demo_world
        = (Inr (), demo_world\<lparr>console := console demo_world @ [Log ''No provider selected.'']\<rparr>)"
    using n by (rule mp)
  have c: "console demo_world = []"
    by (simp add: demo_defs)
  show ?thesis
    using g n m h k a by (simp add: c)
qed

text \<open>
  C9 as stated fails: for an id that is not registered, \<open>handleLogin\<close> does not print a
  message and return; it throws, and so does the \<open>auth login\<close> action when the menu
  answers with such an id.
\<close>

theorem unknown_provider_counterexample:
  "registry_get demo_registry ''ghost'' = None \<and>
   fst (handleLogin demo_registry ''ghost'' demo_world) = Inl (Error ''Unknown provider: ghost'') \<and>
   console (snd (handleLogin demo_registry ''ghost'' demo_world)) = [] \<and>
   fst (authLoginAction demo_registry demo_ghost) = Inl (Error ''Unknown provider: ghost'') \<and>
   console (snd (authLoginAction demo_registry demo_ghost)) = []"
  by (simp add: authLoginAction_def selectAuthProvider_def handleLogin_def registry_of_def
      demo_registry_def demo_engine_def opencodeEngine_def demo_ghost_def demo_defs)


end
